theory Spec2Isabelle
  imports Main
begin

section \<open>Package proof: signature suites and their registry\<close>

subsection \<open>Tags and strategy values\<close>

text \<open>
  \<open>SignatureType\<close> is a string type of the proof package. Its four named constants are
  declared outside \<open>signaturesuite.go\<close>; they are kept apart here as four constructors, and
  \<open>OtherSignatureType s\<close> stands for any other string \<open>s\<close> (the zero value is
  \<open>OtherSignatureType ''''\<close>).
\<close>

datatype SignatureType =
    JCSEdSignatureType
  | WorkEdSignatureType
  | Ed25519SignatureType
  | EcdsaSecp256k1SignatureType
  | OtherSignatureType string

datatype KeyType = Ed25519KeyType | EcdsaSecp256k1KeyType

text \<open>
  \<open>ModelVersion\<close> has the two named constants \<open>V1\<close> and \<open>V2\<close>; \<open>OtherModelVersion\<close>
  stands for any value of the Go type that is neither of them (the \<open>switch\<close> statements of
  the registry have no \<open>default\<close> branch, so such a value selects no suite).
\<close>

datatype ModelVersion = V1 | V2 | OtherModelVersion

text \<open>
  The strategy fields of a suite hold pointers to field-less structs; a strategy is
  therefore identified by its type, and a \<open>nil\<close> field is \<open>None\<close>.
\<close>

datatype ProofFactory = proofFactoryV1 | proofFactoryV2
datatype Canonicalizer = JCSCanonicalizer
datatype Marshaler = EmbeddedProofMarshaler | WithoutProofMarshaler
datatype OptionsAppender = NonceAppender
datatype MessageDigest = Base64Encoder

datatype error = Errorf string | ValidationErrors "string list" | OtherError string

record LDSignatureSuite =
  SignatureType :: SignatureType
  KeyType :: KeyType
  ProofFactory :: "ProofFactory option"
  Canonicalizer :: "Canonicalizer option"
  Marshaler :: "Marshaler option"
  OptionsAppender :: "OptionsAppender option"
  MessageDigest :: "MessageDigest option"

text \<open>
  A value of the interface \<open>SignatureSuite\<close> is one of the dynamic types that occur in the
  package: a pointer to an \<open>LDSignatureSuite\<close>, an \<open>LDSignatureSuite\<close> stored by value
  (the \<open>Backup\<close> of \<open>withAndWithoutCanonicalizer\<close>), or a pointer to a
  \<open>compositeSignatureSuite\<close>. Suites are never written after construction, so a pointer is
  modelled by the struct it points to.
\<close>

datatype SignatureSuite =
    LDSignatureSuitePtr LDSignatureSuite
  | LDSignatureSuiteVal LDSignatureSuite
  | compositeSignatureSuitePtr compositeSignatureSuite
and compositeSignatureSuite =
    compositeSignatureSuite (Main: SignatureSuite) (Backup: SignatureSuite)

subsection \<open>Suite constructors\<close>

definition withAndWithoutCanonicalizer :: "LDSignatureSuite \<Rightarrow> compositeSignatureSuite" where
  "withAndWithoutCanonicalizer suite =
     (let backup = suite\<lparr>Canonicalizer := None\<rparr>
      in compositeSignatureSuite (LDSignatureSuitePtr suite) (LDSignatureSuiteVal backup))"

definition withV2Proofs :: "LDSignatureSuite \<Rightarrow> LDSignatureSuite" where
  "withV2Proofs suite = (let updated = suite in updated\<lparr>ProofFactory := Some proofFactoryV2\<rparr>)"

definition withB64Digest :: "LDSignatureSuite \<Rightarrow> LDSignatureSuite" where
  "withB64Digest suite = (let updated = suite in updated\<lparr>MessageDigest := Some Base64Encoder\<rparr>)"

text \<open>
  The type assertion \<open>x.(*LDSignatureSuite)\<close> panics unless the dynamic type of \<open>x\<close> is
  the pointer type; \<open>None\<close> is the panic.
\<close>

fun assertLDSignatureSuitePtr :: "SignatureSuite \<Rightarrow> LDSignatureSuite option" where
  "assertLDSignatureSuitePtr (LDSignatureSuitePtr s) = Some s"
| "assertLDSignatureSuitePtr (LDSignatureSuiteVal s) = None"
| "assertLDSignatureSuitePtr (compositeSignatureSuitePtr c) = None"

subsection \<open>Methods of the suites\<close>

text \<open>
  Modelled from the spec: the method \<open>Type\<close> of \<open>LDSignatureSuite\<close> is declared outside
  \<open>signaturesuite.go\<close>. By the spec a signature suite is a single Sign/Verify contract
  \<^emph>\<open>for one signature type\<close> and \<open>Type()\<close> yields that \<open>SignatureType\<close>: the method reads
  the field \<open>SignatureType\<close>.
\<close>

definition LDSignatureSuite_Type :: "LDSignatureSuite \<Rightarrow> SignatureType" where
  "LDSignatureSuite_Type s = SignatureType s"

text \<open>Interface dispatch of \<open>Type()\<close>, and \<open>compositeSignatureSuite.Type\<close>.\<close>

fun SignatureSuite_Type :: "SignatureSuite \<Rightarrow> SignatureType"
  and compositeSignatureSuite_Type :: "compositeSignatureSuite \<Rightarrow> SignatureType" where
  "SignatureSuite_Type (LDSignatureSuitePtr s) = LDSignatureSuite_Type s"
| "SignatureSuite_Type (LDSignatureSuiteVal s) = LDSignatureSuite_Type s"
| "SignatureSuite_Type (compositeSignatureSuitePtr c) = compositeSignatureSuite_Type c"
| "compositeSignatureSuite_Type (compositeSignatureSuite main backup) = SignatureSuite_Type main"

subsection \<open>The package-level suites\<close>

definition jcsEd25519SignatureSuite :: LDSignatureSuite where
  "jcsEd25519SignatureSuite =
     \<lparr>SignatureType = JCSEdSignatureType,
      KeyType = Ed25519KeyType,
      ProofFactory = Some proofFactoryV2,
      Canonicalizer = Some JCSCanonicalizer,
      Marshaler = Some EmbeddedProofMarshaler,
      OptionsAppender = None,
      MessageDigest = None\<rparr>"

definition workSignatureSuiteV1 :: compositeSignatureSuite where
  "workSignatureSuiteV1 =
     withAndWithoutCanonicalizer
       \<lparr>SignatureType = WorkEdSignatureType,
        KeyType = Ed25519KeyType,
        ProofFactory = Some proofFactoryV1,
        Canonicalizer = Some JCSCanonicalizer,
        Marshaler = Some WithoutProofMarshaler,
        OptionsAppender = Some NonceAppender,
        MessageDigest = None\<rparr>"

definition workSignatureSuiteV2 :: compositeSignatureSuite where
  "workSignatureSuiteV2 =
     withAndWithoutCanonicalizer
       (withV2Proofs (the (assertLDSignatureSuitePtr (Main workSignatureSuiteV1))))"

definition workSignatureSuiteV1B64 :: compositeSignatureSuite where
  "workSignatureSuiteV1B64 =
     withAndWithoutCanonicalizer
       (withB64Digest (the (assertLDSignatureSuitePtr (Main workSignatureSuiteV1))))"

definition workSignatureSuiteV2B64 :: compositeSignatureSuite where
  "workSignatureSuiteV2B64 =
     withAndWithoutCanonicalizer
       (withV2Proofs (withB64Digest (the (assertLDSignatureSuitePtr (Main workSignatureSuiteV1)))))"

definition ed25519SignatureSuiteV1 :: compositeSignatureSuite where
  "ed25519SignatureSuiteV1 =
     withAndWithoutCanonicalizer
       \<lparr>SignatureType = Ed25519SignatureType,
        KeyType = Ed25519KeyType,
        ProofFactory = Some proofFactoryV1,
        Canonicalizer = Some JCSCanonicalizer,
        Marshaler = Some WithoutProofMarshaler,
        OptionsAppender = Some NonceAppender,
        MessageDigest = None\<rparr>"

definition ed25519SignatureSuiteV2 :: compositeSignatureSuite where
  "ed25519SignatureSuiteV2 =
     withAndWithoutCanonicalizer
       (withV2Proofs (the (assertLDSignatureSuitePtr (Main ed25519SignatureSuiteV1))))"

definition ed25519SignatureSuiteV1B64 :: compositeSignatureSuite where
  "ed25519SignatureSuiteV1B64 =
     withAndWithoutCanonicalizer
       (withB64Digest (the (assertLDSignatureSuitePtr (Main ed25519SignatureSuiteV1))))"

definition ed25519SignatureSuiteV2B64 :: compositeSignatureSuite where
  "ed25519SignatureSuiteV2B64 =
     withAndWithoutCanonicalizer
       (withV2Proofs (withB64Digest (the (assertLDSignatureSuitePtr (Main ed25519SignatureSuiteV1)))))"

definition secp256K1SignatureSuite :: LDSignatureSuite where
  "secp256K1SignatureSuite =
     \<lparr>SignatureType = EcdsaSecp256k1SignatureType,
      KeyType = EcdsaSecp256k1KeyType,
      ProofFactory = Some proofFactoryV1,
      Canonicalizer = Some JCSCanonicalizer,
      Marshaler = Some WithoutProofMarshaler,
      OptionsAppender = Some NonceAppender,
      MessageDigest = None\<rparr>"

subsection \<open>The registry\<close>

text \<open>The fields of the factory are interface values: \<open>None\<close> is the \<open>nil\<close> interface.\<close>

record SignatureSuiteFactory =
  JCSEd25519 :: "SignatureSuite option"
  WorkEd25519 :: "SignatureSuite option"
  WorkEd25519v2 :: "SignatureSuite option"
  Ed25519 :: "SignatureSuite option"
  Ed25519v2 :: "SignatureSuite option"
  Secp256k1 :: "SignatureSuite option"

definition getSuiteV1 :: "SignatureSuiteFactory \<Rightarrow> SignatureType \<Rightarrow> SignatureSuite option" where
  "getSuiteV1 f signatureType =
     (case signatureType of
        EcdsaSecp256k1SignatureType \<Rightarrow> Secp256k1 f
      | WorkEdSignatureType \<Rightarrow> WorkEd25519 f
      | Ed25519SignatureType \<Rightarrow> Ed25519 f
      | _ \<Rightarrow> None)"

definition getSuiteV2 :: "SignatureSuiteFactory \<Rightarrow> SignatureType \<Rightarrow> SignatureSuite option" where
  "getSuiteV2 f signatureType =
     (case signatureType of
        JCSEdSignatureType \<Rightarrow> JCSEd25519 f
      | WorkEdSignatureType \<Rightarrow> WorkEd25519v2 f
      | Ed25519SignatureType \<Rightarrow> Ed25519v2 f
      | _ \<Rightarrow> None)"

text \<open>
  \<open>GetSuite\<close> has the named results \<open>(suite, err)\<close>; both start as \<open>nil\<close> and the pair is
  returned as it stands.
\<close>

definition GetSuite ::
  "SignatureSuiteFactory \<Rightarrow> SignatureType \<Rightarrow> ModelVersion \<Rightarrow> SignatureSuite option \<times> error option" where
  "GetSuite f signatureType modelVersion =
     (let suite = (case modelVersion of
                     V1 \<Rightarrow> getSuiteV1 f signatureType
                   | V2 \<Rightarrow> getSuiteV2 f signatureType
                   | OtherModelVersion \<Rightarrow> None);
          err = (if suite = None then Some (Errorf ''unsupported signature type'') else None)
      in (suite, err))"

definition getSuiteV1Cred :: "SignatureSuiteFactory \<Rightarrow> SignatureType \<Rightarrow> SignatureSuite option" where
  "getSuiteV1Cred f signatureType =
     (case signatureType of
        Ed25519SignatureType \<Rightarrow> Some (compositeSignatureSuitePtr ed25519SignatureSuiteV1B64)
      | WorkEdSignatureType \<Rightarrow> Some (compositeSignatureSuitePtr workSignatureSuiteV1B64)
      | _ \<Rightarrow> None)"

definition getSuiteV2Cred :: "SignatureSuiteFactory \<Rightarrow> SignatureType \<Rightarrow> SignatureSuite option" where
  "getSuiteV2Cred f signatureType =
     (case signatureType of
        Ed25519SignatureType \<Rightarrow> Some (compositeSignatureSuitePtr ed25519SignatureSuiteV2B64)
      | WorkEdSignatureType \<Rightarrow> Some (compositeSignatureSuitePtr workSignatureSuiteV2B64)
      | JCSEdSignatureType \<Rightarrow> Some (LDSignatureSuitePtr jcsEd25519SignatureSuite)
      | _ \<Rightarrow> None)"

definition SignatureSuites :: SignatureSuiteFactory where
  "SignatureSuites =
     \<lparr>JCSEd25519 = Some (LDSignatureSuitePtr jcsEd25519SignatureSuite),
      WorkEd25519 = Some (compositeSignatureSuitePtr workSignatureSuiteV1),
      WorkEd25519v2 = Some (compositeSignatureSuitePtr workSignatureSuiteV2),
      Ed25519 = Some (compositeSignatureSuitePtr ed25519SignatureSuiteV1),
      Ed25519v2 = Some (compositeSignatureSuitePtr ed25519SignatureSuiteV2),
      Secp256k1 = Some (LDSignatureSuitePtr secp256K1SignatureSuite)\<rparr>"


subsection \<open>Proofs and their model version\<close>

text \<open>
  The fields of a proof are those of the \<open>proof\<close> object in \<open>ledger_metadata.json\<close>. The
  two key references are optional there; \<open>None\<close> is a field the proof does not carry.
\<close>

record Proof =
  Created :: string
  Creator :: "string option"
  VerificationMethod :: "string option"
  Nonce :: string
  SignatureValue :: string
  Type :: SignatureType

text \<open>
  Modelled from the spec: the method \<open>ModelVersion\<close> of \<open>Proof\<close> is declared outside the
  source files at hand; the registry calls it as \<open>proof.ModelVersion()\<close> and hands its only
  result to a \<open>switch\<close> over \<open>V1\<close> and \<open>V2\<close>. By the spec, V1 proofs use \<open>creator\<close>, V2
  proofs use \<open>verificationMethod\<close>, and the inference rejects a proof carrying both or
  neither field rather than guessing: such a proof gets neither \<open>V1\<close> nor \<open>V2\<close>.
\<close>

definition ModelVersion :: "Proof \<Rightarrow> ModelVersion" where
  "ModelVersion p =
     (case (Creator p, VerificationMethod p) of
        (Some c, None) \<Rightarrow> V1
      | (None, Some m) \<Rightarrow> V2
      | (Some c, Some m) \<Rightarrow> OtherModelVersion
      | (None, None) \<Rightarrow> OtherModelVersion)"

definition GetSuiteForProof ::
  "SignatureSuiteFactory \<Rightarrow> Proof \<Rightarrow> SignatureSuite option \<times> error option" where
  "GetSuiteForProof f proof = GetSuite f (Type proof) (ModelVersion proof)"

definition GetSuiteForCredentialProof ::
  "SignatureSuiteFactory \<Rightarrow> Proof \<Rightarrow> SignatureSuite option \<times> error option" where
  "GetSuiteForCredentialProof f proof =
     (let suite = (case ModelVersion proof of
                     V1 \<Rightarrow> getSuiteV1Cred f (Type proof)
                   | V2 \<Rightarrow> getSuiteV2Cred f (Type proof)
                   | OtherModelVersion \<Rightarrow> None);
          err = (if suite = None then Some (Errorf ''unsupported signature type'') else None)
      in (suite, err))"

text \<open>
  Modelled from the spec: \<open>GetSuiteForCredentials\<close>, which \<open>Build\<close> calls with a signature
  type and a model version, is not in \<open>signaturesuite.go\<close>. By the spec the registry has a
  separate lookup table for credential proofs, and every (type, version) combination maps
  to exactly one suite or to an "unsupported signature type" error: it is the lookup of
  \<open>GetSuiteForCredentialProof\<close> with the type and the version given by the caller.
\<close>

definition GetSuiteForCredentials ::
  "SignatureSuiteFactory \<Rightarrow> SignatureType \<Rightarrow> ModelVersion \<Rightarrow> SignatureSuite option \<times> error option" where
  "GetSuiteForCredentials f signatureType modelVersion =
     (let suite = (case modelVersion of
                     V1 \<Rightarrow> getSuiteV1Cred f signatureType
                   | V2 \<Rightarrow> getSuiteV2Cred f signatureType
                   | OtherModelVersion \<Rightarrow> None);
          err = (if suite = None then Some (Errorf ''unsupported signature type'') else None)
      in (suite, err))"

subsection \<open>Signing and verifying through the interface\<close>

text \<open>
  \<open>Sign\<close> and \<open>Verify\<close> of \<open>LDSignatureSuite\<close> are declared outside the source files at
  hand and call the external signer and verifier; they are parameters \<open>ldSign\<close> and
  \<open>ldVerify\<close> here. Both may have effects (a remote signer, a fresh nonce): they take
  the state \<open>w\<close> of everything outside the suite and return the new one. \<open>Sign\<close>
  returns its error and what it leaves in the proof slot of the document; \<open>Verify\<close>
  returns its error. The proof options are the third argument of the \<open>Sign\<close> that the
  builder calls; \<open>Sign\<close> as declared in \<open>signaturesuite.go\<close> has no such argument, and
  the composite suite hands every argument to \<open>Main\<close> unchanged.
\<close>

type_synonym ('p, 'sg, 'o, 'w) LDSign =
  "LDSignatureSuite \<Rightarrow> 'p \<Rightarrow> 'sg \<Rightarrow> 'o \<Rightarrow> 'w \<Rightarrow> (error option \<times> Proof option) \<times> 'w"

type_synonym ('p, 'vf, 'w) LDVerify =
  "LDSignatureSuite \<Rightarrow> 'p \<Rightarrow> 'vf \<Rightarrow> 'w \<Rightarrow> error option \<times> 'w"

fun SignatureSuite_Sign ::
    "('p, 'sg, 'o, 'w) LDSign \<Rightarrow> SignatureSuite \<Rightarrow> 'p \<Rightarrow> 'sg \<Rightarrow> 'o \<Rightarrow> 'w
      \<Rightarrow> (error option \<times> Proof option) \<times> 'w"
  and compositeSignatureSuite_Sign ::
    "('p, 'sg, 'o, 'w) LDSign \<Rightarrow> compositeSignatureSuite \<Rightarrow> 'p \<Rightarrow> 'sg \<Rightarrow> 'o \<Rightarrow> 'w
      \<Rightarrow> (error option \<times> Proof option) \<times> 'w" where
  "SignatureSuite_Sign ldSign (LDSignatureSuitePtr s) provable signer options w =
     ldSign s provable signer options w"
| "SignatureSuite_Sign ldSign (LDSignatureSuiteVal s) provable signer options w =
     ldSign s provable signer options w"
| "SignatureSuite_Sign ldSign (compositeSignatureSuitePtr c) provable signer options w =
     compositeSignatureSuite_Sign ldSign c provable signer options w"
| "compositeSignatureSuite_Sign ldSign (compositeSignatureSuite main backup) provable signer options w =
     SignatureSuite_Sign ldSign main provable signer options w"

fun SignatureSuite_Verify ::
    "('p, 'vf, 'w) LDVerify \<Rightarrow> SignatureSuite \<Rightarrow> 'p \<Rightarrow> 'vf \<Rightarrow> 'w \<Rightarrow> error option \<times> 'w"
  and compositeSignatureSuite_Verify ::
    "('p, 'vf, 'w) LDVerify \<Rightarrow> compositeSignatureSuite \<Rightarrow> 'p \<Rightarrow> 'vf \<Rightarrow> 'w \<Rightarrow> error option \<times> 'w" where
  "SignatureSuite_Verify ldVerify (LDSignatureSuitePtr s) provable verifier w =
     ldVerify s provable verifier w"
| "SignatureSuite_Verify ldVerify (LDSignatureSuiteVal s) provable verifier w =
     ldVerify s provable verifier w"
| "SignatureSuite_Verify ldVerify (compositeSignatureSuitePtr c) provable verifier w =
     compositeSignatureSuite_Verify ldVerify c provable verifier w"
| "compositeSignatureSuite_Verify ldVerify (compositeSignatureSuite main backup) provable verifier w =
     (case SignatureSuite_Verify ldVerify main provable verifier w of
        (Some err, w') \<Rightarrow> SignatureSuite_Verify ldVerify backup provable verifier w'
      | (None, w') \<Rightarrow> (None, w'))"


subsection \<open>Sign and Verify of a single suite\<close>

text \<open>
  Modelled from the spec: \<open>LDSignatureSuite.Sign\<close>, \<open>LDSignatureSuite.Verify\<close>, the
  \<open>Provable\<close> interface and the strategy types are not among the source files at hand.
  The spec (Signature Suite; External Interfaces) gives the two algorithms step by step
  over capabilities that the core only consumes. Those capabilities are the fields of
  \<open>ExternalInterfaces\<close>: the proof-shape factories, the source of nonces, the serializer
  behind both marshalers, the canonicalizer, the text-safe re-encoding, and the external
  signer and verifier. A \<open>Provable\<close> exposes its unsigned payload and one proof slot.
\<close>

type_synonym bytes = string

record 'd Provable =
  payload :: 'd
  proofSlot :: "Proof option"

record ('d, 'sg, 'vf, 'o, 'w) ExternalInterfaces =
  createProof :: "ProofFactory \<Rightarrow> SignatureType \<Rightarrow> 'sg \<Rightarrow> 'o \<Rightarrow> 'w \<Rightarrow> (error + Proof) \<times> 'w"
  freshNonce :: "'w \<Rightarrow> string \<times> 'w"
  serialize :: "'d \<Rightarrow> Proof option \<Rightarrow> error + bytes"
  canonicalize :: "bytes \<Rightarrow> error + bytes"
  base64 :: "bytes \<Rightarrow> bytes"
  sign :: "'sg \<Rightarrow> KeyType \<Rightarrow> SignatureType \<Rightarrow> bytes \<Rightarrow> 'w \<Rightarrow> (error + string) \<times> 'w"
  verify :: "'vf \<Rightarrow> string option \<Rightarrow> SignatureType \<Rightarrow> bytes \<Rightarrow> string \<Rightarrow> 'w \<Rightarrow> error option \<times> 'w"

text \<open>
  Modelled from the spec: the key reference of a proof is its \<open>creator\<close> (V1) or its
  \<open>verificationMethod\<close> (V2), exactly one of the two.
\<close>

definition keyReference :: "Proof \<Rightarrow> string option" where
  "keyReference p =
     (case (Creator p, VerificationMethod p) of
        (Some c, None) \<Rightarrow> Some c
      | (None, Some m) \<Rightarrow> Some m
      | (Some c, Some m) \<Rightarrow> None
      | (None, None) \<Rightarrow> None)"

text \<open>
  Modelled from the spec: steps (4) to (6) of \<open>Sign\<close>, which \<open>Verify\<close> mirrors. The
  marshaler serializes the document with the proof stripped, or with the proof embedded
  without its signature value; the canonicalizer, if the suite has one, rewrites the
  bytes; the message digest is the identity or the text-safe re-encoding. A failing step
  aborts with its error. The spec binds every suite to a marshaler; a suite without one
  fails here.
\<close>

definition signingInput ::
  "('d, 'sg, 'vf, 'o, 'w) ExternalInterfaces \<Rightarrow> LDSignatureSuite \<Rightarrow> 'd \<Rightarrow> Proof \<Rightarrow> error + bytes" where
  "signingInput ext s document proof =
     (case Marshaler s of
        None \<Rightarrow> Inl (OtherError ''suite without marshaler'')
      | Some marshaler \<Rightarrow>
          (case (case marshaler of
                   EmbeddedProofMarshaler \<Rightarrow>
                     serialize ext document (Some (proof\<lparr>SignatureValue := []\<rparr>))
                 | WithoutProofMarshaler \<Rightarrow> serialize ext document None) of
             Inl err \<Rightarrow> Inl err
           | Inr serialized \<Rightarrow>
               (case (case Canonicalizer s of
                        None \<Rightarrow> Inr serialized
                      | Some JCSCanonicalizer \<Rightarrow> canonicalize ext serialized) of
                  Inl err \<Rightarrow> Inl err
                | Inr canonical \<Rightarrow>
                    Inr (case MessageDigest s of
                           None \<Rightarrow> canonical
                         | Some Base64Encoder \<Rightarrow> base64 ext canonical))))"

text \<open>
  Modelled from the spec: \<open>Sign\<close> of a single suite. (1) the factory of the suite builds
  the proof skeleton from the options; (2) the options appender, if any, adds a nonce;
  (3) to (6) the skeleton is attached and the signing input computed; (7) the external
  signer signs it for the key type and signature type of the suite; (8) the signature
  value is written into the proof, which is left in the proof slot. On any failure the
  proof slot keeps what it held.
\<close>

definition LDSignatureSuite_Sign ::
  "('d, 'sg, 'vf, 'o, 'w) ExternalInterfaces \<Rightarrow> ('d Provable, 'sg, 'o, 'w) LDSign" where
  "LDSignatureSuite_Sign ext s provable signer options w =
     (case ProofFactory s of
        None \<Rightarrow> ((Some (OtherError ''suite without proof factory''), proofSlot provable), w)
      | Some factory \<Rightarrow>
          (case createProof ext factory (SignatureType s) signer options w of
             (Inl err, w1) \<Rightarrow> ((Some err, proofSlot provable), w1)
           | (Inr skeleton, w1) \<Rightarrow>
               (case (case OptionsAppender s of
                        None \<Rightarrow> (skeleton, w1)
                      | Some NonceAppender \<Rightarrow>
                          (case freshNonce ext w1 of
                             (nonce, w2) \<Rightarrow> (skeleton\<lparr>Nonce := nonce\<rparr>, w2))) of
                  (unsigned, w2) \<Rightarrow>
                    (case signingInput ext s (payload provable) unsigned of
                       Inl err \<Rightarrow> ((Some err, proofSlot provable), w2)
                     | Inr digest \<Rightarrow>
                         (case sign ext signer (KeyType s) (SignatureType s) digest w2 of
                            (Inl err, w3) \<Rightarrow> ((Some err, proofSlot provable), w3)
                          | (Inr signature, w3) \<Rightarrow>
                              ((None, Some (unsigned\<lparr>SignatureValue := signature\<rparr>)), w3))))))"

text \<open>
  Modelled from the spec: \<open>Verify\<close> of a single suite computes the signing input from the
  proof already attached to the document and returns the result of the external verifier
  on the digest, the key reference of the proof, its signature value and the signature
  type of the suite.
\<close>

definition LDSignatureSuite_Verify ::
  "('d, 'sg, 'vf, 'o, 'w) ExternalInterfaces \<Rightarrow> ('d Provable, 'vf, 'w) LDVerify" where
  "LDSignatureSuite_Verify ext s provable verifier w =
     (case proofSlot provable of
        None \<Rightarrow> (Some (OtherError ''document without proof''), w)
      | Some proof \<Rightarrow>
          (case signingInput ext s (payload provable) proof of
             Inl err \<Rightarrow> (Some err, w)
           | Inr digest \<Rightarrow>
               verify ext verifier (keyReference proof) (SignatureType s) digest
                 (SignatureValue proof) w))"

text \<open>A suite uses the base64 digest when every single suite it consists of does.\<close>

fun usesBase64Digest :: "SignatureSuite \<Rightarrow> bool"
  and compositeUsesBase64Digest :: "compositeSignatureSuite \<Rightarrow> bool" where
  "usesBase64Digest (LDSignatureSuitePtr s) = (MessageDigest s = Some Base64Encoder)"
| "usesBase64Digest (LDSignatureSuiteVal s) = (MessageDigest s = Some Base64Encoder)"
| "usesBase64Digest (compositeSignatureSuitePtr c) = compositeUsesBase64Digest c"
| "compositeUsesBase64Digest (compositeSignatureSuite main backup) =
     (usesBase64Digest main \<and> usesBase64Digest backup)"

section \<open>Package credential: the builder\<close>

subsection \<open>Credentials\<close>

text \<open>
  A claim value has the type \<open>interface{}\<close>: the subject identifier is stored as a string,
  and \<open>OtherValue\<close> carries any other value. \<open>Metadata\<close> is declared outside the source
  files at hand and is only copied by the builder: it is the type parameter \<open>'md\<close>.
\<close>

datatype 'a any_value = StringValue string | OtherValue 'a

datatype ProofPurpose = AssertionMethodPurpose | OtherProofPurpose string

record ProofOptions =
  ProofPurpose :: ProofPurpose

text \<open>A \<open>nil\<close> map and a pointer field are options; \<open>CredentialSubject\<close> is always assigned.\<close>

record ('a, 'md) UnsignedVerifiableCredential =
  Metadata :: 'md
  CredentialSubject :: "string \<rightharpoonup> 'a any_value"
  ClaimProofs :: "(string \<rightharpoonup> Proof) option"

record ('a, 'md) VerifiableCredential =
  UnsignedVerifiableCredential :: "('a, 'md) UnsignedVerifiableCredential"
  Proof :: "Proof option"

text \<open>
  The constant \<open>SubjectIDAttribute\<close> is declared outside \<open>builder.go\<close>; by the comment on
  \<open>SubjectDID\<close> the subject is recorded as the \<open>id\<close> property of the credential subject.
\<close>

definition SubjectIDAttribute :: string where
  "SubjectIDAttribute = ''id''"

subsection \<open>The builder and its validation\<close>

record ('a, 'md, 'sg) Builder =
  SubjectDID :: string
  Data :: "(string \<rightharpoonup> 'a any_value) option"
  Metadata :: "'md option"
  Signer :: "'sg option"
  SignatureType :: SignatureType

text \<open>
  \<open>validator.New().Struct(b)\<close> checks the \<open>validate:"required"\<close> tags of the struct: a
  tagged field must not have the zero value of its type. It reports every failing field,
  in the order of declaration. \<open>Data\<close> carries no tag. \<open>Metadata\<close> is opaque here, so
  nothing is checked inside it.
\<close>

definition validateStruct :: "('a, 'md, 'sg) Builder \<Rightarrow> error option" where
  "validateStruct b =
     (let failed =
            (if SubjectDID b = [] then [''SubjectDID''] else []) @
            (if Builder.Metadata b = None then [''Metadata''] else []) @
            (if Signer b = None then [''Signer''] else []) @
            (if Builder.SignatureType b = OtherSignatureType [] then [''SignatureType''] else [])
      in if failed = [] then None else Some (ValidationErrors failed))"

subsection \<open>Ranging over a map\<close>

text \<open>
  \<open>for k, v := range m\<close> visits every entry of \<open>m\<close> once, in an order that the language
  leaves open. The order of each loop is an argument of the model: a list of the entries,
  which \<open>ranges\<close> relates to the map. Ranging over a \<open>nil\<close> map visits nothing.
\<close>

definition ranges :: "('k \<rightharpoonup> 'v) \<Rightarrow> ('k \<times> 'v) list \<Rightarrow> bool" where
  "ranges m kvs \<longleftrightarrow> distinct (map fst kvs) \<and> map_of kvs = m"

definition entries :: "('k \<rightharpoonup> 'v) option \<Rightarrow> ('k \<rightharpoonup> 'v)" where
  "entries m = (case m of None \<Rightarrow> Map.empty | Some m' \<Rightarrow> m')"

subsection \<open>Build\<close>

datatype 'r outcome = Panic | Return 'r

text \<open>The first loop of \<open>Build\<close>: \<open>credSubjects[k] = v\<close> for every entry of \<open>b.Data\<close>.\<close>

fun copyClaims ::
  "(string \<times> 'a any_value) list \<Rightarrow> (string \<rightharpoonup> 'a any_value) \<Rightarrow> (string \<rightharpoonup> 'a any_value)" where
  "copyClaims [] credSubjects = credSubjects"
| "copyClaims ((k, v) # kvs) credSubjects = copyClaims kvs (credSubjects(k \<mapsto> v))"

text \<open>
  The second loop: one minimal credential per claim, signed on its own. A failing \<open>Sign\<close>
  leaves the loop and \<open>Build\<close> with its error (\<open>Inl\<close>); \<open>*credential.Proof\<close> panics when
  \<open>Sign\<close> reports success and has left no proof.
\<close>

fun signClaims ::
  "(('a, 'md) VerifiableCredential, 'sg option, ProofOptions, 'w) LDSign \<Rightarrow> SignatureSuite \<Rightarrow> 'md
    \<Rightarrow> 'sg option \<Rightarrow> ProofOptions \<Rightarrow> (string \<times> 'a any_value) list \<Rightarrow> (string \<rightharpoonup> Proof) \<Rightarrow> 'w
    \<Rightarrow> (error + (string \<rightharpoonup> Proof)) outcome \<times> 'w" where
  "signClaims ldSign suite metadata signer options [] claimProofs w =
     (Return (Inr claimProofs), w)"
| "signClaims ldSign suite metadata signer options ((k, v) # kvs) claimProofs w =
     (let credential =
            \<lparr>UnsignedVerifiableCredential =
               \<lparr>UnsignedVerifiableCredential.Metadata = metadata,
                CredentialSubject = [k \<mapsto> v],
                ClaimProofs = None\<rparr>,
             Proof = None\<rparr>
      in case SignatureSuite_Sign ldSign suite credential signer options w of
           ((Some err, slot), w') \<Rightarrow> (Return (Inl err), w')
         | ((None, None), w') \<Rightarrow> (Panic, w')
         | ((None, Some p), w') \<Rightarrow>
             signClaims ldSign suite metadata signer options kvs (claimProofs(k \<mapsto> p)) w')"

text \<open>
  \<open>Build\<close> returns the pair \<open>(*VerifiableCredential, error)\<close>. \<open>dataRange\<close> is the order
  in which the first loop visits \<open>b.Data\<close>, \<open>subjectRange\<close> the order in which the second
  visits \<open>credSubjects\<close>. The last statement returns the pointer \<open>cred\<close> together with the
  error of the aggregate \<open>Sign\<close>, which has written the proof slot of \<open>cred\<close>.
\<close>

definition Build ::
  "(('a, 'md) VerifiableCredential, 'sg option, ProofOptions, 'w) LDSign \<Rightarrow> ('a, 'md, 'sg) Builder
    \<Rightarrow> (string \<times> 'a any_value) list \<Rightarrow> (string \<times> 'a any_value) list \<Rightarrow> 'w
    \<Rightarrow> (('a, 'md) VerifiableCredential option \<times> error option) outcome \<times> 'w" where
  "Build ldSign b dataRange subjectRange w =
     (case validateStruct b of
        Some err \<Rightarrow> (Return (None, Some err), w)
      | None \<Rightarrow>
          (case GetSuiteForCredentials SignatureSuites (Builder.SignatureType b) V2 of
             (suite, Some err) \<Rightarrow> (Return (None, Some err), w)
           | (None, None) \<Rightarrow> (Panic, w)
           | (Some suite, None) \<Rightarrow>
               (case Builder.Metadata b of
                  None \<Rightarrow> (Panic, w)
                | Some metadata \<Rightarrow>
                    (let credSubjects =
                           copyClaims dataRange [SubjectIDAttribute \<mapsto> StringValue (SubjectDID b)];
                         options = \<lparr>ProofPurpose = AssertionMethodPurpose\<rparr>
                     in case signClaims ldSign suite metadata (Signer b) options subjectRange
                               Map.empty w of
                          (Panic, w') \<Rightarrow> (Panic, w')
                        | (Return (Inl err), w') \<Rightarrow> (Return (None, Some err), w')
                        | (Return (Inr claimProofs), w') \<Rightarrow>
                            (let cred =
                                   \<lparr>UnsignedVerifiableCredential =
                                      \<lparr>UnsignedVerifiableCredential.Metadata = metadata,
                                       CredentialSubject = credSubjects,
                                       ClaimProofs = Some claimProofs\<rparr>,
                                    Proof = None\<rparr>
                             in case SignatureSuite_Sign ldSign suite cred (Signer b) options w' of
                                  ((err, slot), w'') \<Rightarrow>
                                    (Return (Some (cred\<lparr>Proof := slot\<rparr>), err), w''))))))"


text \<open>The credential that the second loop signs for the claim \<open>k\<close> with value \<open>v\<close>.\<close>

abbreviation singleClaimCredential ::
  "'md \<Rightarrow> string \<Rightarrow> 'a any_value \<Rightarrow> ('a, 'md) VerifiableCredential" where
  "singleClaimCredential metadata k v \<equiv>
     \<lparr>UnsignedVerifiableCredential =
        \<lparr>UnsignedVerifiableCredential.Metadata = metadata,
         CredentialSubject = [k \<mapsto> v],
         ClaimProofs = None\<rparr>,
      Proof = None\<rparr>"

section \<open>Concrete inputs\<close>

text \<open>
  A \<open>Sign\<close> whose state counts its calls: the first \<open>n\<close> calls succeed and attach a
  proof, every later call fails like an unavailable remote signer and leaves the proof
  slot as it was.
\<close>

definition scriptedProof :: "SignatureType \<Rightarrow> Proof" where
  "scriptedProof signatureType =
     \<lparr>Created = ''2020-01-01T00:00:00Z'', Creator = None,
      VerificationMethod = Some ''did:example:issuer#key-1'', Nonce = [],
      SignatureValue = ''c2lnbmF0dXJl'', Type = signatureType\<rparr>"

definition scriptedSign ::
  "nat \<Rightarrow> (('a, 'md) VerifiableCredential, 'sg option, ProofOptions, nat) LDSign" where
  "scriptedSign n s credential signer options calls =
     (if calls < n
      then ((None, Some (scriptedProof (LDSignatureSuite.SignatureType s))), Suc calls)
      else ((Some (OtherError ''signer unavailable''), Proof credential), Suc calls))"

text \<open>A \<open>Sign\<close> that never fails and counts its calls.\<close>

definition countingSign ::
  "(('a, 'md) VerifiableCredential, 'sg option, ProofOptions, nat) LDSign" where
  "countingSign s credential signer options calls =
     ((None, Some (scriptedProof (LDSignatureSuite.SignatureType s))), Suc calls)"

text \<open>
  A \<open>Sign\<close> that holds one Ed25519 key: it succeeds for the Ed25519 suites with the signer
  \<open>''issuer key''\<close> and fails for every other suite and every other signer, \<open>nil\<close> included.
\<close>

definition keyedSign ::
  "(('a, 'md) VerifiableCredential, string option, ProofOptions, nat) LDSign" where
  "keyedSign s credential signer options calls =
     (if LDSignatureSuite.SignatureType s = Ed25519SignatureType \<and> signer = Some ''issuer key''
      then ((None, Some (scriptedProof Ed25519SignatureType)), Suc calls)
      else ((Some (OtherError ''no key for this suite''), Proof credential), calls))"

text \<open>A \<open>Sign\<close> that works for the Ed25519 suites only, as \<open>scriptedSign 10\<close> does.\<close>

definition ed25519OnlySign ::
  "(('a, 'md) VerifiableCredential, 'sg option, ProofOptions, nat) LDSign" where
  "ed25519OnlySign s credential signer options calls =
     (if LDSignatureSuite.SignatureType s = Ed25519SignatureType
      then scriptedSign 10 s credential signer options calls
      else ((Some (OtherError ''wrong suite''), Proof credential), calls))"

definition exampleClaims :: "(string \<times> int any_value) list" where
  "exampleClaims = [(''age'', OtherValue 30), (''country'', StringValue ''US'')]"

definition exampleBuilder :: "(int, string, string) Builder" where
  "exampleBuilder =
     \<lparr>SubjectDID = ''did:example:123'',
      Data = Some (map_of exampleClaims),
      Metadata = Some ''metadata'',
      Signer = Some ''issuer key'',
      SignatureType = Ed25519SignatureType\<rparr>"

text \<open>
  A \<open>Verify\<close> whose state is the list of the suites it was called on. The document says
  how it was signed: \<open>''canonical''\<close> bytes verify under a suite with a canonicalizer,
  \<open>''legacy''\<close> bytes under a suite without one, anything else under neither.
\<close>

definition tracedVerify :: "(string, unit, LDSignatureSuite list) LDVerify" where
  "tracedVerify s provable verifier trace =
     ((if Canonicalizer s \<noteq> None \<and> provable = ''canonical'' then None
       else if Canonicalizer s = None \<and> provable = ''legacy'' then None
       else if Canonicalizer s \<noteq> None then Some (OtherError ''main: signature mismatch'')
       else Some (OtherError ''backup: signature mismatch'')),
      trace @ [s])"

text \<open>
  Toy external interfaces: a signature is the name of the key followed by the signed
  bytes, and the verifier accepts exactly that under the same key.
\<close>

definition toyInterfaces :: "(string, string, string, unit, nat) ExternalInterfaces" where
  "toyInterfaces =
     \<lparr>createProof = (\<lambda>factory signatureType signer options w.
        (Inr \<lparr>Created = ''2020-01-01T00:00:00Z'',
              Creator = (case factory of proofFactoryV1 \<Rightarrow> Some signer | proofFactoryV2 \<Rightarrow> None),
              VerificationMethod =
                (case factory of proofFactoryV1 \<Rightarrow> None | proofFactoryV2 \<Rightarrow> Some signer),
              Nonce = [], SignatureValue = [], Type = signatureType\<rparr>, w)),
      freshNonce = (\<lambda>w. (replicate (Suc w) CHR ''n'', Suc w)),
      serialize = (\<lambda>document proof.
        Inr (document @ (case proof of None \<Rightarrow> [] | Some p \<Rightarrow> ''|'' @ Nonce p @ ''|'' @ SignatureValue p))),
      canonicalize = (\<lambda>serialized. Inr (filter (\<lambda>c. c \<noteq> CHR '' '') serialized)),
      base64 = (\<lambda>canonical. ''b64:'' @ canonical),
      sign = (\<lambda>signer keyType signatureType digest w. (Inr (signer @ '':'' @ digest), Suc w)),
      verify = (\<lambda>verifier key signatureType digest signature w.
        ((if key = Some verifier \<and> signature = verifier @ '':'' @ digest then None
          else Some (OtherError ''invalid signature'')), w))\<rparr>"

section \<open>The registry and the composite suite\<close>

lemmas suite_defs =
  jcsEd25519SignatureSuite_def workSignatureSuiteV1_def workSignatureSuiteV2_def
  workSignatureSuiteV1B64_def workSignatureSuiteV2B64_def ed25519SignatureSuiteV1_def
  ed25519SignatureSuiteV2_def ed25519SignatureSuiteV1B64_def ed25519SignatureSuiteV2B64_def
  secp256K1SignatureSuite_def withAndWithoutCanonicalizer_def withV2Proofs_def
  withB64Digest_def

text \<open>No type assertion in the initialisers of the package-level suites panics.\<close>

lemma package_type_assertions:
  "assertLDSignatureSuitePtr (Main workSignatureSuiteV1) \<noteq> None"
  "assertLDSignatureSuitePtr (Main ed25519SignatureSuiteV1) \<noteq> None"
  by (simp_all add: workSignatureSuiteV1_def ed25519SignatureSuiteV1_def
      withAndWithoutCanonicalizer_def)

text \<open>
  C1. On the registry \<open>SignatureSuites()\<close>, \<open>GetSuite\<close> returns for each of the six
  supported pairs of signature type and model version a suite and no error, and the
  \<open>Type()\<close> of that suite is the requested signature type; for every other pair it
  returns no suite and the error "unsupported signature type".
\<close>

theorem GetSuite_supported_pairs:
  "((signatureType, modelVersion) \<in>
      {(JCSEdSignatureType, V2), (WorkEdSignatureType, V1), (WorkEdSignatureType, V2),
       (Ed25519SignatureType, V1), (Ed25519SignatureType, V2), (EcdsaSecp256k1SignatureType, V1)}
     \<longrightarrow> (\<exists>suite. GetSuite SignatureSuites signatureType modelVersion = (Some suite, None)
            \<and> SignatureSuite_Type suite = signatureType)) \<and>
   ((signatureType, modelVersion) \<notin>
      {(JCSEdSignatureType, V2), (WorkEdSignatureType, V1), (WorkEdSignatureType, V2),
       (Ed25519SignatureType, V1), (Ed25519SignatureType, V2), (EcdsaSecp256k1SignatureType, V1)}
     \<longrightarrow> GetSuite SignatureSuites signatureType modelVersion
          = (None, Some (Errorf ''unsupported signature type'')))"
  by (cases signatureType; cases modelVersion)
     (simp_all add: GetSuite_def getSuiteV1_def getSuiteV2_def SignatureSuites_def suite_defs
        LDSignatureSuite_Type_def)

theorem GetSuite_supported_pairs_witness:
  "(\<exists>suite. GetSuite SignatureSuites WorkEdSignatureType V2 = (Some suite, None)
            \<and> SignatureSuite_Type suite = WorkEdSignatureType) \<and>
   GetSuite SignatureSuites JCSEdSignatureType V1
     = (None, Some (Errorf ''unsupported signature type''))"
  using GetSuite_supported_pairs [of WorkEdSignatureType V2]
    GetSuite_supported_pairs [of JCSEdSignatureType V1]
  by simp

text \<open>
  C2. \<open>Verify\<close> of the composite suite runs \<open>Verify\<close> of \<open>Main\<close> first. When \<open>Main\<close>
  succeeds, the composite returns no error in the state \<open>Main\<close> left, whatever the
  \<open>Backup\<close> is: \<open>Backup\<close> is not called. When \<open>Main\<close> fails, the composite is the call
  of \<open>Backup\<close> in the state \<open>Main\<close> left; when that fails too, the error returned is the
  one of \<open>Backup\<close>, and the error of \<open>Main\<close> is dropped.
\<close>

theorem composite_Verify_main_then_backup:
  "(SignatureSuite_Verify ldVerify main provable verifier w = (None, w') \<longrightarrow>
      (\<forall>backup. compositeSignatureSuite_Verify ldVerify (compositeSignatureSuite main backup)
                  provable verifier w = (None, w'))) \<and>
   (SignatureSuite_Verify ldVerify main provable verifier w = (Some mainErr, w') \<longrightarrow>
      compositeSignatureSuite_Verify ldVerify (compositeSignatureSuite main backup) provable verifier w
        = SignatureSuite_Verify ldVerify backup provable verifier w') \<and>
   (SignatureSuite_Verify ldVerify main provable verifier w = (Some mainErr, w') \<and>
    SignatureSuite_Verify ldVerify backup provable verifier w' = (Some backupErr, w'') \<longrightarrow>
      compositeSignatureSuite_Verify ldVerify (compositeSignatureSuite main backup) provable verifier w
        = (Some backupErr, w''))"
  by simp

theorem composite_Verify_main_then_backup_witness:
  "compositeSignatureSuite_Verify tracedVerify
     (compositeSignatureSuite (LDSignatureSuitePtr secp256K1SignatureSuite)
        (LDSignatureSuiteVal (secp256K1SignatureSuite\<lparr>Canonicalizer := None\<rparr>)))
     ''canonical'' () []
     = (None, [secp256K1SignatureSuite]) \<and>
   compositeSignatureSuite_Verify tracedVerify
     (compositeSignatureSuite (LDSignatureSuitePtr secp256K1SignatureSuite)
        (LDSignatureSuiteVal (secp256K1SignatureSuite\<lparr>Canonicalizer := None\<rparr>)))
     ''legacy'' () []
     = (None, [secp256K1SignatureSuite, secp256K1SignatureSuite\<lparr>Canonicalizer := None\<rparr>]) \<and>
   compositeSignatureSuite_Verify tracedVerify
     (compositeSignatureSuite (LDSignatureSuitePtr secp256K1SignatureSuite)
        (LDSignatureSuiteVal (secp256K1SignatureSuite\<lparr>Canonicalizer := None\<rparr>)))
     ''tampered'' () []
     = (Some (OtherError ''backup: signature mismatch''),
        [secp256K1SignatureSuite, secp256K1SignatureSuite\<lparr>Canonicalizer := None\<rparr>])"
proof -
  let ?main = "LDSignatureSuitePtr secp256K1SignatureSuite"
  let ?backup = "LDSignatureSuiteVal (secp256K1SignatureSuite\<lparr>Canonicalizer := None\<rparr>)"
  have canonical: "SignatureSuite_Verify tracedVerify ?main ''canonical'' () []
                     = (None, [secp256K1SignatureSuite])"
    by (simp add: tracedVerify_def secp256K1SignatureSuite_def)
  have legacy: "SignatureSuite_Verify tracedVerify ?main ''legacy'' () []
                  = (Some (OtherError ''main: signature mismatch''), [secp256K1SignatureSuite])"
    by (simp add: tracedVerify_def secp256K1SignatureSuite_def)
  have legacyBackup: "SignatureSuite_Verify tracedVerify ?backup ''legacy'' () [secp256K1SignatureSuite]
          = (None, [secp256K1SignatureSuite, secp256K1SignatureSuite\<lparr>Canonicalizer := None\<rparr>])"
    by (simp add: tracedVerify_def)
  have tampered: "SignatureSuite_Verify tracedVerify ?main ''tampered'' () []
                  = (Some (OtherError ''main: signature mismatch''), [secp256K1SignatureSuite])"
    by (simp add: tracedVerify_def secp256K1SignatureSuite_def)
  have tamperedBackup:
    "SignatureSuite_Verify tracedVerify ?backup ''tampered'' () [secp256K1SignatureSuite]
       = (Some (OtherError ''backup: signature mismatch''),
          [secp256K1SignatureSuite, secp256K1SignatureSuite\<lparr>Canonicalizer := None\<rparr>])"
    by (simp add: tracedVerify_def)
  from composite_Verify_main_then_backup
         [of tracedVerify ?main "''canonical''" "()" "[]" "[secp256K1SignatureSuite]"]
       canonical
  have "compositeSignatureSuite_Verify tracedVerify (compositeSignatureSuite ?main ?backup)
          ''canonical'' () [] = (None, [secp256K1SignatureSuite])"
    by blast
  moreover
  from composite_Verify_main_then_backup
         [of tracedVerify ?main "''legacy''" "()" "[]" "[secp256K1SignatureSuite]"
             "OtherError ''main: signature mismatch''" ?backup]
       legacy legacyBackup
  have "compositeSignatureSuite_Verify tracedVerify (compositeSignatureSuite ?main ?backup)
          ''legacy'' () []
        = (None, [secp256K1SignatureSuite, secp256K1SignatureSuite\<lparr>Canonicalizer := None\<rparr>])"
    by presburger
  moreover
  from composite_Verify_main_then_backup
         [of tracedVerify ?main "''tampered''" "()" "[]" "[secp256K1SignatureSuite]"
             "OtherError ''main: signature mismatch''" ?backup
             "OtherError ''backup: signature mismatch''"
             "[secp256K1SignatureSuite, secp256K1SignatureSuite\<lparr>Canonicalizer := None\<rparr>]"]
       tampered tamperedBackup
  have "compositeSignatureSuite_Verify tracedVerify (compositeSignatureSuite ?main ?backup)
          ''tampered'' () []
        = (Some (OtherError ''backup: signature mismatch''),
           [secp256K1SignatureSuite, secp256K1SignatureSuite\<lparr>Canonicalizer := None\<rparr>])"
    by blast
  ultimately show ?thesis by blast
qed

lemma withAndWithoutCanonicalizer_shape:
  "Main (withAndWithoutCanonicalizer suite) = LDSignatureSuitePtr suite"
  "Backup (withAndWithoutCanonicalizer suite) = LDSignatureSuiteVal (suite\<lparr>Canonicalizer := None\<rparr>)"
  "compositeSignatureSuite_Type (withAndWithoutCanonicalizer suite) = LDSignatureSuite.SignatureType suite"
  by (simp_all add: withAndWithoutCanonicalizer_def LDSignatureSuite_Type_def)

text \<open>
  C7. Every composite suite of the package is made by \<open>withAndWithoutCanonicalizer\<close>:
  its \<open>Main\<close> is a single suite with the JCS canonicalizer, its \<open>Backup\<close> is the same
  configuration with the canonicalizer set to \<open>nil\<close> and nothing else changed, its
  \<open>Type()\<close> is the one of \<open>Main\<close>, and \<open>Backup\<close> has the same type.
\<close>

theorem registry_composites_differ_in_canonicalizer:
  assumes "c \<in> {workSignatureSuiteV1, workSignatureSuiteV2, workSignatureSuiteV1B64,
                workSignatureSuiteV2B64, ed25519SignatureSuiteV1, ed25519SignatureSuiteV2,
                ed25519SignatureSuiteV1B64, ed25519SignatureSuiteV2B64}"
  shows "\<exists>m. Main c = LDSignatureSuitePtr m
            \<and> Backup c = LDSignatureSuiteVal (m\<lparr>Canonicalizer := None\<rparr>)
            \<and> Canonicalizer m = Some JCSCanonicalizer
            \<and> compositeSignatureSuite_Type c = SignatureSuite_Type (Main c)
            \<and> SignatureSuite_Type (Backup c) = SignatureSuite_Type (Main c)"
proof -
  have "\<exists>m. c = withAndWithoutCanonicalizer m \<and> Canonicalizer m = Some JCSCanonicalizer"
    using assms
    by (auto simp: workSignatureSuiteV1_def workSignatureSuiteV2_def workSignatureSuiteV1B64_def
      workSignatureSuiteV2B64_def ed25519SignatureSuiteV1_def ed25519SignatureSuiteV2_def
      ed25519SignatureSuiteV1B64_def ed25519SignatureSuiteV2B64_def withAndWithoutCanonicalizer_shape
      withV2Proofs_def withB64Digest_def)
  then obtain m where "c = withAndWithoutCanonicalizer m" "Canonicalizer m = Some JCSCanonicalizer"
    by blast
  then show ?thesis
    by (simp add: withAndWithoutCanonicalizer_shape LDSignatureSuite_Type_def)
qed

theorem registry_composites_differ_in_canonicalizer_witness:
  "\<exists>m. Main workSignatureSuiteV2B64 = LDSignatureSuitePtr m
      \<and> Backup workSignatureSuiteV2B64 = LDSignatureSuiteVal (m\<lparr>Canonicalizer := None\<rparr>)
      \<and> Canonicalizer m = Some JCSCanonicalizer
      \<and> compositeSignatureSuite_Type workSignatureSuiteV2B64
          = SignatureSuite_Type (Main workSignatureSuiteV2B64)
      \<and> SignatureSuite_Type (Backup workSignatureSuiteV2B64)
          = SignatureSuite_Type (Main workSignatureSuiteV2B64)"
  using registry_composites_differ_in_canonicalizer [of workSignatureSuiteV2B64] by simp

text \<open>
  C8. A proof that carries both \<open>creator\<close> and \<open>verificationMethod\<close>, or neither, gets
  no model version \<open>V1\<close> or \<open>V2\<close>, and both \<open>GetSuiteForProof\<close> and
  \<open>GetSuiteForCredentialProof\<close> return no suite and the error "unsupported signature
  type" for it, on every registry.
\<close>

theorem ambiguous_proof_rejected:
  assumes "(Creator p = None) = (VerificationMethod p = None)"
  shows "ModelVersion p \<notin> {V1, V2}
       \<and> GetSuiteForProof f p = (None, Some (Errorf ''unsupported signature type''))
       \<and> GetSuiteForCredentialProof f p = (None, Some (Errorf ''unsupported signature type''))"
  using assms
  by (cases "Creator p"; cases "VerificationMethod p")
     (simp_all add: ModelVersion_def GetSuiteForProof_def GetSuite_def GetSuiteForCredentialProof_def)

theorem ambiguous_proof_rejected_witness:
  "GetSuiteForProof SignatureSuites
     (scriptedProof Ed25519SignatureType\<lparr>Creator := Some ''did:example:issuer#key-1''\<rparr>)
     = (None, Some (Errorf ''unsupported signature type'')) \<and>
   GetSuiteForCredentialProof SignatureSuites
     (scriptedProof Ed25519SignatureType\<lparr>Creator := Some ''did:example:issuer#key-1''\<rparr>)
     = (None, Some (Errorf ''unsupported signature type'')) \<and>
   GetSuiteForProof SignatureSuites
     (scriptedProof Ed25519SignatureType\<lparr>VerificationMethod := None\<rparr>)
     = (None, Some (Errorf ''unsupported signature type'')) \<and>
   GetSuiteForCredentialProof SignatureSuites
     (scriptedProof Ed25519SignatureType\<lparr>VerificationMethod := None\<rparr>)
     = (None, Some (Errorf ''unsupported signature type''))"
  using ambiguous_proof_rejected
          [of "scriptedProof Ed25519SignatureType\<lparr>Creator := Some ''did:example:issuer#key-1''\<rparr>"
              SignatureSuites]
        ambiguous_proof_rejected
          [of "scriptedProof Ed25519SignatureType\<lparr>VerificationMethod := None\<rparr>" SignatureSuites]
  by (simp add: scriptedProof_def)

text \<open>
  C6, as stated, fails: a V2 proof of type JCSEd25519 is accepted by
  \<open>GetSuiteForCredentialProof\<close> with the general JCS suite, which has no message digest.
\<close>

theorem credential_proof_jcs_counterexample:
  "GetSuiteForCredentialProof SignatureSuites (scriptedProof JCSEdSignatureType)
     = (Some (LDSignatureSuitePtr jcsEd25519SignatureSuite), None)
   \<and> \<not> usesBase64Digest (LDSignatureSuitePtr jcsEd25519SignatureSuite)"
  by (simp add: GetSuiteForCredentialProof_def ModelVersion_def scriptedProof_def
      getSuiteV2Cred_def jcsEd25519SignatureSuite_def)

text \<open>
  C6, amended. A proof accepted by \<open>GetSuiteForCredentialProof\<close> has the model version
  V1 or V2 and the type Ed25519, WorkEd25519 or JCSEd25519. For Ed25519 and WorkEd25519
  the suite returned is a composite suite whose \<open>Main\<close> and \<open>Backup\<close> both carry the
  base64 digest; a JCSEd25519 proof is accepted at V2 only, and its suite is the general
  JCS suite, which has no message digest.
\<close>

theorem credential_proof_suite_digest:
  assumes "GetSuiteForCredentialProof f proof = (Some suite, err)"
  shows "err = None
       \<and> ModelVersion proof \<in> {V1, V2}
       \<and> Type proof \<in> {Ed25519SignatureType, WorkEdSignatureType, JCSEdSignatureType}
       \<and> (Type proof \<in> {Ed25519SignatureType, WorkEdSignatureType} \<longrightarrow>
            (\<exists>c. suite = compositeSignatureSuitePtr c
               \<and> usesBase64Digest (Main c) \<and> usesBase64Digest (Backup c)))
       \<and> (Type proof = JCSEdSignatureType \<longrightarrow>
            ModelVersion proof = V2
            \<and> suite = LDSignatureSuitePtr jcsEd25519SignatureSuite
            \<and> MessageDigest jcsEd25519SignatureSuite = None)"
  using assms
  by (cases "ModelVersion proof"; cases "Type proof")
     (auto simp: GetSuiteForCredentialProof_def getSuiteV1Cred_def getSuiteV2Cred_def suite_defs)

theorem credential_proof_suite_digest_witness:
  "(\<exists>c. GetSuiteForCredentialProof SignatureSuites (scriptedProof WorkEdSignatureType)
           = (Some (compositeSignatureSuitePtr c), None)
        \<and> usesBase64Digest (Main c) \<and> usesBase64Digest (Backup c)) \<and>
   GetSuiteForCredentialProof SignatureSuites (scriptedProof JCSEdSignatureType)
     = (Some (LDSignatureSuitePtr jcsEd25519SignatureSuite), None)
   \<and> ModelVersion (scriptedProof JCSEdSignatureType) = V2
   \<and> MessageDigest jcsEd25519SignatureSuite = None"
proof -
  have work: "GetSuiteForCredentialProof SignatureSuites (scriptedProof WorkEdSignatureType)
                = (Some (compositeSignatureSuitePtr workSignatureSuiteV2B64), None)"
    by (simp add: GetSuiteForCredentialProof_def ModelVersion_def scriptedProof_def
        getSuiteV2Cred_def)
  have jcs: "GetSuiteForCredentialProof SignatureSuites (scriptedProof JCSEdSignatureType)
               = (Some (LDSignatureSuitePtr jcsEd25519SignatureSuite), None)"
    by (simp add: GetSuiteForCredentialProof_def ModelVersion_def scriptedProof_def
        getSuiteV2Cred_def)
  from credential_proof_suite_digest [OF work] credential_proof_suite_digest [OF jcs] work jcs
  show ?thesis by (simp add: scriptedProof_def)
qed

section \<open>Round trip of Sign and Verify\<close>

lemma signingInput_signature:
  "signingInput ext s document (proof\<lparr>SignatureValue := signature\<rparr>)
     = signingInput ext s document proof"
  by (simp add: signingInput_def split: option.splits Marshaler.splits)

lemma keyReference_updates:
  "keyReference (p\<lparr>SignatureValue := signature\<rparr>) = keyReference p"
  "keyReference (p\<lparr>Nonce := nonce\<rparr>) = keyReference p"
  by (simp_all add: keyReference_def)

lemma LDSignatureSuite_round_trip:
  assumes keyRef: "\<forall>factory signatureType options w p w1.
             createProof ext factory signatureType signer options w = (Inr p, w1)
               \<longrightarrow> keyReference p = Some key"
    and pair: "\<forall>keyType signatureType digest w signature w1 wv.
             sign ext signer keyType signatureType digest w = (Inr signature, w1)
               \<longrightarrow> fst (verify ext verifier (Some key) signatureType digest signature wv) = None"
    and signed: "LDSignatureSuite_Sign ext s provable signer options w = ((None, slot), w1)"
  shows "fst (LDSignatureSuite_Verify ext s (provable\<lparr>proofSlot := slot\<rparr>) verifier wv) = None"
proof -
  from signed have "\<exists>factory skeleton wa unsigned wb digest signature.
      createProof ext factory (LDSignatureSuite.SignatureType s) signer options w = (Inr skeleton, wa)
    \<and> (unsigned = skeleton \<or> (\<exists>nonce. unsigned = skeleton\<lparr>Nonce := nonce\<rparr>))
    \<and> signingInput ext s (payload provable) unsigned = Inr digest
    \<and> sign ext signer (KeyType s) (LDSignatureSuite.SignatureType s) digest wb = (Inr signature, w1)
    \<and> slot = Some (unsigned\<lparr>SignatureValue := signature\<rparr>)"
    by (simp add: LDSignatureSuite_Sign_def
        split: option.splits prod.splits sum.splits OptionsAppender.splits) blast+
  then obtain factory skeleton wa unsigned wb digest signature where
    created: "createProof ext factory (LDSignatureSuite.SignatureType s) signer options w
                = (Inr skeleton, wa)"
    and unsigned: "unsigned = skeleton \<or> (\<exists>nonce. unsigned = skeleton\<lparr>Nonce := nonce\<rparr>)"
    and input: "signingInput ext s (payload provable) unsigned = Inr digest"
    and signature: "sign ext signer (KeyType s) (LDSignatureSuite.SignatureType s) digest wb
                      = (Inr signature, w1)"
    and slot: "slot = Some (unsigned\<lparr>SignatureValue := signature\<rparr>)"
    by blast
  from keyRef created have "keyReference skeleton = Some key" by blast
  with unsigned have key: "keyReference (unsigned\<lparr>SignatureValue := signature\<rparr>) = Some key"
    by (auto simp: keyReference_updates)
  from pair signature
  have "fst (verify ext verifier (Some key) (LDSignatureSuite.SignatureType s) digest signature wv)
          = None"
    by blast
  then show ?thesis
    using slot key input
    by (simp add: LDSignatureSuite_Verify_def signingInput_signature)
qed

lemma suite_round_trip:
  assumes keyRef: "\<forall>factory signatureType options w p w1.
             createProof ext factory signatureType signer options w = (Inr p, w1)
               \<longrightarrow> keyReference p = Some key"
    and pair: "\<forall>keyType signatureType digest w signature w1 wv.
             sign ext signer keyType signatureType digest w = (Inr signature, w1)
               \<longrightarrow> fst (verify ext verifier (Some key) signatureType digest signature wv) = None"
  shows "SignatureSuite_Sign (LDSignatureSuite_Sign ext) suite provable signer options w
            = ((None, slot), w1) \<longrightarrow>
          fst (SignatureSuite_Verify (LDSignatureSuite_Verify ext) suite
                 (provable\<lparr>proofSlot := slot\<rparr>) verifier wv) = None"
    and "compositeSignatureSuite_Sign (LDSignatureSuite_Sign ext) cs provable signer options w
            = ((None, slot), w1) \<longrightarrow>
          fst (compositeSignatureSuite_Verify (LDSignatureSuite_Verify ext) cs
                 (provable\<lparr>proofSlot := slot\<rparr>) verifier wv) = None"
proof (induction suite and cs)
  case (LDSignatureSuitePtr s)
  show ?case using LDSignatureSuite_round_trip [OF keyRef pair] by simp
next
  case (LDSignatureSuiteVal s)
  show ?case using LDSignatureSuite_round_trip [OF keyRef pair] by simp
next
  case (compositeSignatureSuitePtr c)
  then show ?case by simp
next
  case (compositeSignatureSuite main backup)
  then show ?case by (auto split: prod.splits option.splits)
qed

text \<open>
  C5. Let the signer and the verifier be a matching pair for the key \<open>key\<close>: the proofs
  made for the signer refer to \<open>key\<close>, and the verifier accepts under \<open>key\<close> every
  signature the signer produces, for the bytes it was produced for. Then for every suite
  (single or composite, so every suite of both lookup tables) and every document: when
  \<open>Sign\<close> returns no error, \<open>Verify\<close> on the document, with the proof that \<open>Sign\<close>
  left in its proof slot, returns no error, in whatever state it runs.
\<close>

theorem Sign_then_Verify_succeeds:
  assumes "\<forall>factory signatureType options w p w1.
             createProof ext factory signatureType signer options w = (Inr p, w1)
               \<longrightarrow> keyReference p = Some key"
    and "\<forall>keyType signatureType digest w signature w1 wv.
             sign ext signer keyType signatureType digest w = (Inr signature, w1)
               \<longrightarrow> fst (verify ext verifier (Some key) signatureType digest signature wv) = None"
    and "SignatureSuite_Sign (LDSignatureSuite_Sign ext) suite provable signer options w
           = ((None, slot), w1)"
  shows "fst (SignatureSuite_Verify (LDSignatureSuite_Verify ext) suite
                (provable\<lparr>proofSlot := slot\<rparr>) verifier wv) = None"
  using suite_round_trip(1) [OF assms(1) assms(2)] assms(3) by blast

theorem Sign_then_Verify_succeeds_witness:
  "SignatureSuite_Sign (LDSignatureSuite_Sign toyInterfaces)
     (compositeSignatureSuitePtr workSignatureSuiteV2B64)
     \<lparr>payload = ''name = alice'', proofSlot = None\<rparr> ''did:work:issuer#key-1'' () 0
   = ((None, Some \<lparr>Created = ''2020-01-01T00:00:00Z'', Creator = None,
                   VerificationMethod = Some ''did:work:issuer#key-1'', Nonce = ''n'',
                   SignatureValue = ''did:work:issuer#key-1:b64:name=alice'',
                   Type = WorkEdSignatureType\<rparr>), 2) \<and>
   fst (SignatureSuite_Verify (LDSignatureSuite_Verify toyInterfaces)
          (compositeSignatureSuitePtr workSignatureSuiteV2B64)
          \<lparr>payload = ''name = alice'',
           proofSlot = Some \<lparr>Created = ''2020-01-01T00:00:00Z'', Creator = None,
                   VerificationMethod = Some ''did:work:issuer#key-1'', Nonce = ''n'',
                   SignatureValue = ''did:work:issuer#key-1:b64:name=alice'',
                   Type = WorkEdSignatureType\<rparr>\<rparr>
          ''did:work:issuer#key-1'' 5) = None"
proof -
  let ?key = "''did:work:issuer#key-1''"
  let ?document = "\<lparr>payload = ''name = alice'', proofSlot = None\<rparr>"
  let ?slot = "Some \<lparr>Created = ''2020-01-01T00:00:00Z'', Creator = None,
                   VerificationMethod = Some ''did:work:issuer#key-1'', Nonce = ''n'',
                   SignatureValue = ''did:work:issuer#key-1:b64:name=alice'',
                   Type = WorkEdSignatureType\<rparr>"
  have keyRef: "\<forall>factory signatureType options w p w1.
             createProof toyInterfaces factory signatureType ?key options w = (Inr p, w1)
               \<longrightarrow> keyReference p = Some ?key"
    by (auto simp: toyInterfaces_def keyReference_def split: ProofFactory.splits)
  have pair: "\<forall>keyType signatureType digest w signature w1 wv.
             sign toyInterfaces ?key keyType signatureType digest w = (Inr signature, w1)
               \<longrightarrow> fst (verify toyInterfaces ?key (Some ?key) signatureType digest signature wv) = None"
    by (auto simp: toyInterfaces_def)
  have signed: "SignatureSuite_Sign (LDSignatureSuite_Sign toyInterfaces)
     (compositeSignatureSuitePtr workSignatureSuiteV2B64) ?document ?key () 0 = ((None, ?slot), 2)"
    by (simp add: workSignatureSuiteV2B64_def workSignatureSuiteV1_def
        withAndWithoutCanonicalizer_def withV2Proofs_def withB64Digest_def
        LDSignatureSuite_Sign_def signingInput_def toyInterfaces_def)
  from Sign_then_Verify_succeeds [OF keyRef pair signed, of 5] signed
  show ?thesis by simp
qed

section \<open>The builder\<close>

subsection \<open>The two loops\<close>

lemma copyClaims_map_add:
  "distinct (map fst kvs) \<Longrightarrow> copyClaims kvs m = m ++ map_of kvs"
proof (induction kvs arbitrary: m)
  case Nil
  then show ?case by simp
next
  case (Cons kv kvs)
  obtain k v where kv: "kv = (k, v)" by (cases kv)
  from Cons.prems kv have notin: "k \<notin> dom (map_of kvs)" and d: "distinct (map fst kvs)"
    by (auto simp: dom_map_of_conv_image_fst)
  have "copyClaims (kv # kvs) m = copyClaims kvs (m(k \<mapsto> v))"
    by (simp add: kv)
  also have "\<dots> = m(k \<mapsto> v) ++ map_of kvs"
    by (rule Cons.IH [OF d])
  also have "\<dots> = (m ++ map_of kvs)(k \<mapsto> v)"
    using notin by (auto simp: map_add_def fun_eq_iff split: option.splits)
  also have "\<dots> = m ++ map_of (kv # kvs)"
    by (simp add: kv)
  finally show ?case .
qed

lemma copyClaims_ranges:
  "ranges data kvs \<Longrightarrow> copyClaims kvs m = m ++ data"
  by (auto simp: ranges_def copyClaims_map_add)

lemma ranges_empty: "ranges Map.empty kvs \<Longrightarrow> kvs = []"
  by (cases kvs) (auto simp: ranges_def dest: fun_cong)

lemma ranges_singleton:
  assumes "ranges [k \<mapsto> v] kvs"
  shows "kvs = [(k, v)]"
proof (cases kvs)
  case Nil
  with assms have "Map.empty k = [k \<mapsto> v] k" by (simp add: ranges_def)
  then show ?thesis by simp
next
  case (Cons kv rest)
  obtain a b where kv: "kv = (a, b)" by (cases kv)
  from assms Cons kv have m: "\<And>x. ((map_of rest)(a \<mapsto> b)) x = [k \<mapsto> v] x"
    and d: "a \<notin> fst ` set rest"
    by (auto simp: ranges_def dest: fun_cong)
  from m [of a] have ab: "a = k" "b = v" by (auto split: if_splits)
  have "rest = []"
  proof (cases rest)
    case Nil
    then show ?thesis .
  next
    case (Cons kv' rest')
    then have "fst kv' \<in> fst ` set rest" by simp
    with d have ne: "fst kv' \<noteq> a" by auto
    from \<open>fst kv' \<in> fst ` set rest\<close> have "map_of rest (fst kv') \<noteq> None"
      by (simp add: map_of_eq_None_iff)
    with m [of "fst kv'"] ne ab show ?thesis by simp
  qed
  with Cons kv ab show ?thesis by simp
qed

text \<open>
  When the second loop runs to its end, the proofs it has collected are those it started
  with plus one per entry visited, each left by a successful \<open>Sign\<close> of the credential
  that holds that one claim.
\<close>

lemma signClaims_success:
  assumes "signClaims ldSign suite metadata signer options kvs cp0 w = (Return (Inr cp), w')"
    and "distinct (map fst kvs)"
  shows "dom cp = dom cp0 \<union> fst ` set kvs
       \<and> (\<forall>k. k \<notin> fst ` set kvs \<longrightarrow> cp k = cp0 k)
       \<and> (\<forall>(k, v) \<in> set kvs. \<exists>p w1 w2. cp k = Some p \<and>
             SignatureSuite_Sign ldSign suite (singleClaimCredential metadata k v) signer options w1
               = ((None, Some p), w2))"
  using assms
proof (induction kvs arbitrary: cp0 w)
  case Nil
  then show ?case by simp
next
  case (Cons kv kvs)
  obtain k v where kv: "kv = (k, v)" by (cases kv)
  from Cons.prems(2) kv have notin: "k \<notin> fst ` set kvs" and d: "distinct (map fst kvs)"
    by auto
  obtain err slot w1 where
    s: "SignatureSuite_Sign ldSign suite (singleClaimCredential metadata k v) signer options w
          = ((err, slot), w1)"
    by (metis surj_pair)
  from Cons.prems(1) kv s obtain p where
    e: "err = None" and sl: "slot = Some p" and
    rest: "signClaims ldSign suite metadata signer options kvs (cp0(k \<mapsto> p)) w1
             = (Return (Inr cp), w')"
    by (cases err; cases slot) auto
  note ih = Cons.IH [OF rest d]
  have ih1: "dom cp = dom (cp0(k \<mapsto> p)) \<union> fst ` set kvs"
    by (rule ih [THEN conjunct1])
  have ih2: "\<forall>k'. k' \<notin> fst ` set kvs \<longrightarrow> cp k' = (cp0(k \<mapsto> p)) k'"
    by (rule ih [THEN conjunct2, THEN conjunct1])
  have ih3: "\<forall>(k', v') \<in> set kvs. \<exists>p w1 w2. cp k' = Some p \<and>
             SignatureSuite_Sign ldSign suite (singleClaimCredential metadata k' v') signer options w1
               = ((None, Some p), w2)"
    by (rule ih [THEN conjunct2, THEN conjunct2])
  from ih2 notin have cpk: "cp k = Some p" by simp
  have "dom cp = dom cp0 \<union> fst ` set (kv # kvs)"
    using ih1 kv by auto
  moreover have "\<forall>k'. k' \<notin> fst ` set (kv # kvs) \<longrightarrow> cp k' = cp0 k'"
    using ih2 kv by auto
  moreover have "\<forall>(k', v') \<in> set (kv # kvs). \<exists>p w1 w2. cp k' = Some p \<and>
             SignatureSuite_Sign ldSign suite (singleClaimCredential metadata k' v') signer options w1
               = ((None, Some p), w2)"
  proof -
    have "\<exists>p w1 w2. cp k = Some p \<and>
             SignatureSuite_Sign ldSign suite (singleClaimCredential metadata k v) signer options w1
               = ((None, Some p), w2)"
      using cpk s e sl by blast
    then show ?thesis using ih3 kv by (simp del: fun_upd_apply)
  qed
  ultimately show ?case by blast
qed

subsection \<open>Validation and suite lookup\<close>

lemma validateStruct_None:
  "validateStruct b = None \<longleftrightarrow>
     SubjectDID b \<noteq> [] \<and> Builder.Metadata b \<noteq> None \<and> Signer b \<noteq> None
     \<and> Builder.SignatureType b \<noteq> OtherSignatureType []"
  by (simp add: validateStruct_def)

lemma GetSuiteForCredentials_V2:
  "GetSuiteForCredentials f t V2 =
     (case getSuiteV2Cred f t of
        None \<Rightarrow> (None, Some (Errorf ''unsupported signature type''))
      | Some suite \<Rightarrow> (Some suite, None))"
  by (simp add: GetSuiteForCredentials_def split: option.splits)

lemma Build_success_parts:
  assumes "Build ldSign b dataRange subjectRange w = (Return (Some cred, None), w')"
  shows "\<exists>suite metadata claimProofs w1.
           getSuiteV2Cred SignatureSuites (Builder.SignatureType b) = Some suite
         \<and> Builder.Metadata b = Some metadata
         \<and> signClaims ldSign suite metadata (Signer b) \<lparr>ProofPurpose = AssertionMethodPurpose\<rparr>
              subjectRange Map.empty w = (Return (Inr claimProofs), w1)
         \<and> UnsignedVerifiableCredential cred =
              \<lparr>UnsignedVerifiableCredential.Metadata = metadata,
               CredentialSubject =
                 copyClaims dataRange [SubjectIDAttribute \<mapsto> StringValue (SubjectDID b)],
               ClaimProofs = Some claimProofs\<rparr>
         \<and> SignatureSuite_Sign ldSign suite (cred\<lparr>Proof := None\<rparr>) (Signer b)
              \<lparr>ProofPurpose = AssertionMethodPurpose\<rparr> w1 = ((None, Proof cred), w')"
  using assms
  by (auto simp: Build_def GetSuiteForCredentials_V2 Let_def
      split: option.splits prod.splits outcome.splits sum.splits
      simp del: fun_upd_apply)

lemmas build_eval =
  Build_def validateStruct_def GetSuiteForCredentials_def getSuiteV2Cred_def
  SubjectIDAttribute_def scriptedSign_def scriptedProof_def exampleBuilder_def
  exampleClaims_def Let_def

text \<open>
  \<open>Build\<close> returns a credential together with an error on one path only: the
  aggregate \<open>Sign\<close> has failed with that error. A failing \<open>Sign\<close> of a single claim
  returns no credential.
\<close>

lemma Build_credential_with_error:
  assumes "Build ldSign b dataRange subjectRange w = (Return (Some cred, Some err), w')"
  shows "\<exists>suite w1. SignatureSuite_Sign ldSign suite (cred\<lparr>Proof := None\<rparr>) (Signer b)
              \<lparr>ProofPurpose = AssertionMethodPurpose\<rparr> w1 = ((Some err, Proof cred), w')"
proof -
  from assms obtain suite metadata claimProofs w1 slot where
    "SignatureSuite_Sign ldSign suite
       \<lparr>UnsignedVerifiableCredential =
          \<lparr>UnsignedVerifiableCredential.Metadata = metadata,
           CredentialSubject =
             copyClaims dataRange [SubjectIDAttribute \<mapsto> StringValue (SubjectDID b)],
           ClaimProofs = Some claimProofs\<rparr>,
        Proof = None\<rparr>
       (Signer b) \<lparr>ProofPurpose = AssertionMethodPurpose\<rparr> w1 = ((Some err, slot), w')"
    and "cred =
       \<lparr>UnsignedVerifiableCredential =
          \<lparr>UnsignedVerifiableCredential.Metadata = metadata,
           CredentialSubject =
             copyClaims dataRange [SubjectIDAttribute \<mapsto> StringValue (SubjectDID b)],
           ClaimProofs = Some claimProofs\<rparr>,
        Proof = slot\<rparr>"
    by (auto simp: Build_def GetSuiteForCredentials_V2 Let_def
        split: option.splits prod.splits outcome.splits sum.splits
        simp del: fun_upd_apply)
  then have "SignatureSuite_Sign ldSign suite (cred\<lparr>Proof := None\<rparr>) (Signer b)
              \<lparr>ProofPurpose = AssertionMethodPurpose\<rparr> w1 = ((Some err, Proof cred), w')"
    by simp
  then show ?thesis by blast
qed

lemma Build_claim_signing_failure:
  assumes "validateStruct b = None"
    and "getSuiteV2Cred SignatureSuites (Builder.SignatureType b) = Some suite"
    and "Builder.Metadata b = Some metadata"
    and "signClaims ldSign suite metadata (Signer b) \<lparr>ProofPurpose = AssertionMethodPurpose\<rparr>
           subjectRange Map.empty w = (Return (Inl err), w')"
  shows "Build ldSign b dataRange subjectRange w = (Return (None, Some err), w')"
  using assms
  by (simp add: Build_def GetSuiteForCredentials_V2 Let_def del: fun_upd_apply)

subsection \<open>Claims about Build\<close>

text \<open>
  C3 does not hold of the code. On the builder of the example without claims, with a
  signer that answers once and is unavailable afterwards, the proof of the claim \<open>id\<close>
  is made, the aggregate \<open>Sign\<close> fails, and \<open>Build\<close> returns its error together with
  the credential that carries the claim proof and no aggregate proof.
\<close>

theorem Build_aggregate_failure_returns_credential:
  "Build (scriptedSign 1) (exampleBuilder\<lparr>Data := None\<rparr>) []
      [(''id'', StringValue ''did:example:123'')] 0
   = (Return
       (Some \<lparr>UnsignedVerifiableCredential =
                \<lparr>UnsignedVerifiableCredential.Metadata = ''metadata'',
                 CredentialSubject = [''id'' \<mapsto> StringValue ''did:example:123''],
                 ClaimProofs = Some [''id'' \<mapsto> scriptedProof Ed25519SignatureType]\<rparr>,
              Proof = None\<rparr>,
        Some (OtherError ''signer unavailable'')),
      2)"
  by (simp add: build_eval suite_defs del: fun_upd_apply)

text \<open>
  C4, as stated, fails: with the claim \<open>id\<close> among the input claims, a successful
  \<open>Build\<close> keeps the value of the input, which is not the subject identifier.
\<close>

theorem Build_id_claim_counterexample:
  "Build (scriptedSign 10)
      (exampleBuilder\<lparr>Data := Some [''id'' \<mapsto> StringValue ''did:example:999'']\<rparr>)
      [(''id'', StringValue ''did:example:999'')]
      [(''id'', StringValue ''did:example:999'')] 0
   = (Return
       (Some \<lparr>UnsignedVerifiableCredential =
                \<lparr>UnsignedVerifiableCredential.Metadata = ''metadata'',
                 CredentialSubject = [''id'' \<mapsto> StringValue ''did:example:999''],
                 ClaimProofs = Some [''id'' \<mapsto> scriptedProof Ed25519SignatureType]\<rparr>,
              Proof = Some (scriptedProof Ed25519SignatureType)\<rparr>,
        None),
      2)
   \<and> SubjectDID (exampleBuilder\<lparr>Data := Some [''id'' \<mapsto> StringValue ''did:example:999'']\<rparr>)
       = ''did:example:123''
   \<and> [''id'' \<mapsto> StringValue ''did:example:999'' :: int any_value] ''id''
       \<noteq> Some (StringValue ''did:example:123'')"
proof (intro conjI)
  show "[''id'' \<mapsto> StringValue ''did:example:999'' :: int any_value] ''id''
          \<noteq> Some (StringValue ''did:example:123'')"
    by simp
qed (simp_all add: build_eval suite_defs del: fun_upd_apply)

text \<open>
  C4, amended. Let the two loops range over \<open>b.Data\<close> and over the claim set, and let
  a \<open>Sign\<close> of the resolved suite with the signer of the builder attach a proof
  whenever it succeeds. A successful \<open>Build\<close> returns a credential with the metadata of
  the builder, whose credential subject is the claim \<open>id\<close> set to the subject
  identifier, overwritten by the input claims (so the input claims, plus \<open>id\<close> when
  they have none); whose claim proofs have exactly the keys of the credential subject,
  each one left by a successful \<open>Sign\<close>, with the suite of the credential-proof table,
  of the credential holding that one claim and the metadata; and which carries an
  aggregate proof, the one left by the successful \<open>Sign\<close> of the full credential with
  all claims and all claim proofs.
\<close>

theorem Build_success_credential:
  assumes build: "Build ldSign b dataRange subjectRange w = (Return (Some cred, None), w')"
    and dataRange: "ranges (entries (Data b)) dataRange"
    and subjectRange:
      "ranges ([SubjectIDAttribute \<mapsto> StringValue (SubjectDID b)] ++ entries (Data b)) subjectRange"
    and attaches:
      "\<forall>suite c w0 slot w1.
         getSuiteV2Cred SignatureSuites (Builder.SignatureType b) = Some suite \<longrightarrow>
         SignatureSuite_Sign ldSign suite c (Signer b) \<lparr>ProofPurpose = AssertionMethodPurpose\<rparr> w0
           = ((None, slot), w1) \<longrightarrow>
         slot \<noteq> None"
  shows "\<exists>suite metadata claimProofs aggregateProof w1.
           getSuiteV2Cred SignatureSuites (Builder.SignatureType b) = Some suite
         \<and> Builder.Metadata b = Some metadata
         \<and> UnsignedVerifiableCredential.Metadata (UnsignedVerifiableCredential cred) = metadata
         \<and> CredentialSubject (UnsignedVerifiableCredential cred)
             = [SubjectIDAttribute \<mapsto> StringValue (SubjectDID b)] ++ entries (Data b)
         \<and> ClaimProofs (UnsignedVerifiableCredential cred) = Some claimProofs
         \<and> dom claimProofs = dom (CredentialSubject (UnsignedVerifiableCredential cred))
         \<and> (\<forall>k v. CredentialSubject (UnsignedVerifiableCredential cred) k = Some v \<longrightarrow>
               (\<exists>p wa wb. claimProofs k = Some p \<and>
                  SignatureSuite_Sign ldSign suite (singleClaimCredential metadata k v) (Signer b)
                    \<lparr>ProofPurpose = AssertionMethodPurpose\<rparr> wa = ((None, Some p), wb)))
         \<and> Proof cred = Some aggregateProof
         \<and> SignatureSuite_Sign ldSign suite (cred\<lparr>Proof := None\<rparr>) (Signer b)
              \<lparr>ProofPurpose = AssertionMethodPurpose\<rparr> w1 = ((None, Some aggregateProof), w')"
proof -
  let ?subjects = "[SubjectIDAttribute \<mapsto> StringValue (SubjectDID b)] ++ entries (Data b)"
  let ?options = "\<lparr>ProofPurpose = AssertionMethodPurpose\<rparr>"
  from Build_success_parts [OF build] obtain suite metadata claimProofs w1 where
    suite: "getSuiteV2Cred SignatureSuites (Builder.SignatureType b) = Some suite" and
    metadata: "Builder.Metadata b = Some metadata" and
    loop: "signClaims ldSign suite metadata (Signer b) ?options subjectRange Map.empty w
             = (Return (Inr claimProofs), w1)" and
    unsigned: "UnsignedVerifiableCredential cred =
              \<lparr>UnsignedVerifiableCredential.Metadata = metadata,
               CredentialSubject =
                 copyClaims dataRange [SubjectIDAttribute \<mapsto> StringValue (SubjectDID b)],
               ClaimProofs = Some claimProofs\<rparr>" and
    aggregate: "SignatureSuite_Sign ldSign suite (cred\<lparr>Proof := None\<rparr>) (Signer b) ?options w1
                  = ((None, Proof cred), w')"
    by blast
  have subjects: "CredentialSubject (UnsignedVerifiableCredential cred) = ?subjects"
    using unsigned copyClaims_ranges [OF dataRange] by simp
  from subjectRange have d: "distinct (map fst subjectRange)"
    and m: "map_of subjectRange = ?subjects"
    by (simp_all add: ranges_def)
  note s = signClaims_success [OF loop d]
  have keys: "dom ?subjects = fst ` set subjectRange"
    using m by (metis dom_map_of_conv_image_fst)
  have "dom claimProofs = dom ?subjects"
    using s keys by simp
  moreover have "\<forall>k v. ?subjects k = Some v \<longrightarrow>
               (\<exists>p wa wb. claimProofs k = Some p \<and>
                  SignatureSuite_Sign ldSign suite (singleClaimCredential metadata k v) (Signer b)
                    ?options wa = ((None, Some p), wb))"
  proof (intro allI impI)
    fix k v
    assume "?subjects k = Some v"
    with m have "map_of subjectRange k = Some v" by simp
    then have "(k, v) \<in> set subjectRange" by (rule map_of_SomeD)
    with s show "\<exists>p wa wb. claimProofs k = Some p \<and>
                  SignatureSuite_Sign ldSign suite (singleClaimCredential metadata k v) (Signer b)
                    ?options wa = ((None, Some p), wb)"
      by blast
  qed
  moreover from attaches suite aggregate obtain aggregateProof where
    "Proof cred = Some aggregateProof"
    by blast
  ultimately show ?thesis
    using suite metadata unsigned subjects aggregate by (simp del: fun_upd_apply) blast
qed

theorem Build_success_credential_witness:
  "\<exists>cred w'.
     Build (scriptedSign 10) exampleBuilder exampleClaims
       [(''country'', StringValue ''US''), (''id'', StringValue ''did:example:123''),
        (''age'', OtherValue 30)] 0
       = (Return (Some cred, None), w')
   \<and> (\<exists>suite metadata claimProofs aggregateProof w1.
           getSuiteV2Cred SignatureSuites (Builder.SignatureType exampleBuilder) = Some suite
         \<and> Builder.Metadata exampleBuilder = Some metadata
         \<and> UnsignedVerifiableCredential.Metadata (UnsignedVerifiableCredential cred) = metadata
         \<and> CredentialSubject (UnsignedVerifiableCredential cred)
             = [SubjectIDAttribute \<mapsto> StringValue (SubjectDID exampleBuilder)]
                 ++ entries (Data exampleBuilder)
         \<and> ClaimProofs (UnsignedVerifiableCredential cred) = Some claimProofs
         \<and> dom claimProofs = dom (CredentialSubject (UnsignedVerifiableCredential cred))
         \<and> (\<forall>k v. CredentialSubject (UnsignedVerifiableCredential cred) k = Some v \<longrightarrow>
               (\<exists>p wa wb. claimProofs k = Some p \<and>
                  SignatureSuite_Sign (scriptedSign 10) suite
                    (singleClaimCredential metadata k v) (Signer exampleBuilder)
                    \<lparr>ProofPurpose = AssertionMethodPurpose\<rparr> wa = ((None, Some p), wb)))
         \<and> Proof cred = Some aggregateProof
         \<and> SignatureSuite_Sign (scriptedSign 10) suite (cred\<lparr>Proof := None\<rparr>)
              (Signer exampleBuilder) \<lparr>ProofPurpose = AssertionMethodPurpose\<rparr> w1
              = ((None, Some aggregateProof), w'))"
proof -
  let ?p = "scriptedProof Ed25519SignatureType"
  let ?subjectRange = "[(''country'', StringValue ''US''), (''id'', StringValue ''did:example:123''),
        (''age'', OtherValue (30::int))]"
  let ?cred = "\<lparr>UnsignedVerifiableCredential =
                  \<lparr>UnsignedVerifiableCredential.Metadata = ''metadata'',
                   CredentialSubject =
                     [''id'' \<mapsto> StringValue ''did:example:123'', ''age'' \<mapsto> OtherValue (30::int),
                      ''country'' \<mapsto> StringValue ''US''],
                   ClaimProofs = Some [''country'' \<mapsto> ?p, ''id'' \<mapsto> ?p, ''age'' \<mapsto> ?p]\<rparr>,
                Proof = Some ?p\<rparr>"
  have eval: "Build (scriptedSign 10) exampleBuilder exampleClaims ?subjectRange 0
                = (Return (Some ?cred, None), 4)"
    by (simp add: build_eval suite_defs del: fun_upd_apply)
  have dataRange: "ranges (entries (Data exampleBuilder)) exampleClaims"
    by (simp add: ranges_def entries_def exampleBuilder_def exampleClaims_def)
  have subjectRange:
    "ranges ([SubjectIDAttribute \<mapsto> StringValue (SubjectDID exampleBuilder)]
               ++ entries (Data exampleBuilder)) ?subjectRange"
    by (auto simp: ranges_def entries_def exampleBuilder_def exampleClaims_def
        SubjectIDAttribute_def fun_eq_iff map_add_def)
  have attaches:
    "\<forall>suite (c :: (int, string) VerifiableCredential) w0 slot w1.
       getSuiteV2Cred SignatureSuites (Builder.SignatureType exampleBuilder) = Some suite \<longrightarrow>
       SignatureSuite_Sign (scriptedSign 10) suite c (Signer exampleBuilder)
         \<lparr>ProofPurpose = AssertionMethodPurpose\<rparr> w0 = ((None, slot), w1) \<longrightarrow>
       slot \<noteq> None"
    by (auto simp: getSuiteV2Cred_def exampleBuilder_def suite_defs scriptedSign_def
        split: if_splits)
  from Build_success_credential [OF eval dataRange subjectRange attaches] eval
  show ?thesis by blast
qed

text \<open>
  C9, as stated, fails: \<open>Build\<close> validates the builder before it looks the suite up.
  For a builder without subject identifier and with the signature type EcdsaSecp256k1
  the combination is unsupported, and \<open>Build\<close> returns the error of the validation, not
  the one of the lookup.
\<close>

theorem Build_validation_first_counterexample:
  "GetSuiteForCredentials SignatureSuites
     (Builder.SignatureType
        (exampleBuilder\<lparr>SubjectDID := [], SignatureType := EcdsaSecp256k1SignatureType\<rparr>)) V2
     = (None, Some (Errorf ''unsupported signature type'')) \<and>
   Build countingSign
     (exampleBuilder\<lparr>SubjectDID := [], SignatureType := EcdsaSecp256k1SignatureType\<rparr>)
     exampleClaims ((''id'', StringValue []) # exampleClaims) 0
     = (Return (None, Some (ValidationErrors [''SubjectDID''])), 0)"
  by (simp add: build_eval suite_defs del: fun_upd_apply)

text \<open>
  C9, amended. Let the builder pass validation. \<open>Build\<close> looks the signature type of the
  builder up at V2 in the table of the credential proofs. When the lookup returns an
  error, \<open>Build\<close> returns no credential and that error, and nothing is signed. When it
  returns a suite, that suite is the entry of \<open>getSuiteV2Cred\<close> and \<open>Build\<close> signs with
  it: \<open>Build\<close> is the second loop run with that suite followed by the \<open>Sign\<close> of that
  suite on the full credential; a failing \<open>Sign\<close> of that suite on the first claim
  visited is returned as the error of \<open>Build\<close>; every credential that \<open>Build\<close> returns
  has gone through the \<open>Sign\<close> of that suite; and \<open>Build\<close> depends on no other
  \<open>Sign\<close> than the one of that suite.
\<close>

theorem Build_resolves_suite:
  assumes "validateStruct b = None"
  shows "(\<forall>suite err.
            GetSuiteForCredentials SignatureSuites (Builder.SignatureType b) V2 = (suite, Some err) \<longrightarrow>
            Build ldSign b dataRange subjectRange w = (Return (None, Some err), w)) \<and>
         (\<forall>suite.
            GetSuiteForCredentials SignatureSuites (Builder.SignatureType b) V2 = (Some suite, None) \<longrightarrow>
            getSuiteV2Cred SignatureSuites (Builder.SignatureType b) = Some suite \<and>
            (\<exists>metadata.
               Builder.Metadata b = Some metadata \<and>
               Build ldSign b dataRange subjectRange w =
                 (case signClaims ldSign suite metadata (Signer b)
                         \<lparr>ProofPurpose = AssertionMethodPurpose\<rparr> subjectRange Map.empty w of
                    (Panic, w') \<Rightarrow> (Panic, w')
                  | (Return (Inl err), w') \<Rightarrow> (Return (None, Some err), w')
                  | (Return (Inr claimProofs), w') \<Rightarrow>
                      (case SignatureSuite_Sign ldSign suite
                              \<lparr>UnsignedVerifiableCredential =
                                 \<lparr>UnsignedVerifiableCredential.Metadata = metadata,
                                  CredentialSubject =
                                    copyClaims dataRange
                                      [SubjectIDAttribute \<mapsto> StringValue (SubjectDID b)],
                                  ClaimProofs = Some claimProofs\<rparr>,
                               Proof = None\<rparr>
                              (Signer b) \<lparr>ProofPurpose = AssertionMethodPurpose\<rparr> w' of
                         ((err, slot), w'') \<Rightarrow>
                           (Return
                              (Some \<lparr>UnsignedVerifiableCredential =
                                       \<lparr>UnsignedVerifiableCredential.Metadata = metadata,
                                        CredentialSubject =
                                          copyClaims dataRange
                                            [SubjectIDAttribute \<mapsto> StringValue (SubjectDID b)],
                                        ClaimProofs = Some claimProofs\<rparr>,
                                     Proof = slot\<rparr>,
                               err),
                            w''))) \<and>
               (\<forall>k v rest err slot w'.
                  subjectRange = (k, v) # rest \<and>
                  SignatureSuite_Sign ldSign suite (singleClaimCredential metadata k v) (Signer b)
                    \<lparr>ProofPurpose = AssertionMethodPurpose\<rparr> w = ((Some err, slot), w') \<longrightarrow>
                  Build ldSign b dataRange subjectRange w = (Return (None, Some err), w'))) \<and>
            (\<forall>cred err w'.
               Build ldSign b dataRange subjectRange w = (Return (Some cred, err), w') \<longrightarrow>
               (\<exists>w1. SignatureSuite_Sign ldSign suite (cred\<lparr>Proof := None\<rparr>) (Signer b)
                       \<lparr>ProofPurpose = AssertionMethodPurpose\<rparr> w1 = ((err, Proof cred), w'))) \<and>
            (\<forall>ldSign'. SignatureSuite_Sign ldSign' suite = SignatureSuite_Sign ldSign suite \<longrightarrow>
               Build ldSign' b dataRange subjectRange w = Build ldSign b dataRange subjectRange w))"
proof (intro conjI allI impI)
  fix suite err
  assume "GetSuiteForCredentials SignatureSuites (Builder.SignatureType b) V2 = (suite, Some err)"
  with assms show "Build ldSign b dataRange subjectRange w = (Return (None, Some err), w)"
    by (simp add: Build_def split: option.splits)
next
  fix suite
  assume suite: "GetSuiteForCredentials SignatureSuites (Builder.SignatureType b) V2 = (Some suite, None)"
  then show "getSuiteV2Cred SignatureSuites (Builder.SignatureType b) = Some suite"
    by (simp add: GetSuiteForCredentials_def Let_def)
  let ?options = "\<lparr>ProofPurpose = AssertionMethodPurpose\<rparr>"
  from assms obtain metadata where metadata: "Builder.Metadata b = Some metadata"
    by (auto simp: validateStruct_None)
  have unfolded:
    "Build ldSign b dataRange subjectRange w =
       (case signClaims ldSign suite metadata (Signer b) ?options subjectRange Map.empty w of
          (Panic, w') \<Rightarrow> (Panic, w')
        | (Return (Inl err), w') \<Rightarrow> (Return (None, Some err), w')
        | (Return (Inr claimProofs), w') \<Rightarrow>
            (case SignatureSuite_Sign ldSign suite
                    \<lparr>UnsignedVerifiableCredential =
                       \<lparr>UnsignedVerifiableCredential.Metadata = metadata,
                        CredentialSubject =
                          copyClaims dataRange [SubjectIDAttribute \<mapsto> StringValue (SubjectDID b)],
                        ClaimProofs = Some claimProofs\<rparr>,
                     Proof = None\<rparr>
                    (Signer b) ?options w' of
               ((err, slot), w'') \<Rightarrow>
                 (Return
                    (Some \<lparr>UnsignedVerifiableCredential =
                             \<lparr>UnsignedVerifiableCredential.Metadata = metadata,
                              CredentialSubject =
                                copyClaims dataRange
                                  [SubjectIDAttribute \<mapsto> StringValue (SubjectDID b)],
                              ClaimProofs = Some claimProofs\<rparr>,
                           Proof = slot\<rparr>,
                     err),
                  w'')))"
    by (simp add: Build_def assms suite metadata Let_def del: fun_upd_apply
        split: prod.splits outcome.splits sum.splits)
  have first: "Build ldSign b dataRange subjectRange w = (Return (None, Some err), w')"
    if "subjectRange = (k, v) # rest \<and>
        SignatureSuite_Sign ldSign suite (singleClaimCredential metadata k v) (Signer b)
          ?options w = ((Some err, slot), w')"
    for k v rest err slot w'
  proof -
    from that have "signClaims ldSign suite metadata (Signer b) ?options subjectRange Map.empty w
                      = (Return (Inl err), w')"
      by (simp del: fun_upd_apply)
    then show ?thesis by (simp add: unfolded)
  qed
  from metadata unfolded first
  show "\<exists>metadata.
          Builder.Metadata b = Some metadata \<and>
          Build ldSign b dataRange subjectRange w =
            (case signClaims ldSign suite metadata (Signer b) ?options subjectRange Map.empty w of
               (Panic, w') \<Rightarrow> (Panic, w')
             | (Return (Inl err), w') \<Rightarrow> (Return (None, Some err), w')
             | (Return (Inr claimProofs), w') \<Rightarrow>
                 (case SignatureSuite_Sign ldSign suite
                         \<lparr>UnsignedVerifiableCredential =
                            \<lparr>UnsignedVerifiableCredential.Metadata = metadata,
                             CredentialSubject =
                               copyClaims dataRange
                                 [SubjectIDAttribute \<mapsto> StringValue (SubjectDID b)],
                             ClaimProofs = Some claimProofs\<rparr>,
                          Proof = None\<rparr>
                         (Signer b) ?options w' of
                    ((err, slot), w'') \<Rightarrow>
                      (Return
                         (Some \<lparr>UnsignedVerifiableCredential =
                                  \<lparr>UnsignedVerifiableCredential.Metadata = metadata,
                                   CredentialSubject =
                                     copyClaims dataRange
                                       [SubjectIDAttribute \<mapsto> StringValue (SubjectDID b)],
                                   ClaimProofs = Some claimProofs\<rparr>,
                                Proof = slot\<rparr>,
                          err),
                       w''))) \<and>
          (\<forall>k v rest err slot w'.
             subjectRange = (k, v) # rest \<and>
             SignatureSuite_Sign ldSign suite (singleClaimCredential metadata k v) (Signer b)
               ?options w = ((Some err, slot), w') \<longrightarrow>
             Build ldSign b dataRange subjectRange w = (Return (None, Some err), w'))"
    by blast
  {
    fix cred err w'
    assume returned: "Build ldSign b dataRange subjectRange w = (Return (Some cred, err), w')"
    from returned [unfolded unfolded] obtain claimProofs w1 slot where
      "SignatureSuite_Sign ldSign suite
         \<lparr>UnsignedVerifiableCredential =
            \<lparr>UnsignedVerifiableCredential.Metadata = metadata,
             CredentialSubject =
               copyClaims dataRange [SubjectIDAttribute \<mapsto> StringValue (SubjectDID b)],
             ClaimProofs = Some claimProofs\<rparr>,
          Proof = None\<rparr>
         (Signer b) ?options w1 = ((err, slot), w')"
      and "cred =
         \<lparr>UnsignedVerifiableCredential =
            \<lparr>UnsignedVerifiableCredential.Metadata = metadata,
             CredentialSubject =
               copyClaims dataRange [SubjectIDAttribute \<mapsto> StringValue (SubjectDID b)],
             ClaimProofs = Some claimProofs\<rparr>,
          Proof = slot\<rparr>"
      by (auto split: prod.splits outcome.splits sum.splits simp del: fun_upd_apply)
    then have "SignatureSuite_Sign ldSign suite (cred\<lparr>Proof := None\<rparr>) (Signer b) ?options w1
                 = ((err, Proof cred), w')"
      by simp
    then show "\<exists>w1. SignatureSuite_Sign ldSign suite (cred\<lparr>Proof := None\<rparr>) (Signer b)
                       ?options w1 = ((err, Proof cred), w')"
      by blast
  }
  fix ldSign'
  assume same: "SignatureSuite_Sign ldSign' suite = SignatureSuite_Sign ldSign suite"
  have loop: "signClaims ldSign' suite md signer options kvs cp w0
                = signClaims ldSign suite md signer options kvs cp w0"
    for md signer options kvs cp w0
  proof (induction kvs arbitrary: cp w0)
    case Nil
    show ?case by simp
  next
    case (Cons kv kvs)
    obtain k v where kv: "kv = (k, v)" by (cases kv)
    show ?case
      by (simp add: kv same Cons.IH del: fun_upd_apply split: prod.splits option.splits)
  qed
  show "Build ldSign' b dataRange subjectRange w = Build ldSign b dataRange subjectRange w"
    by (simp add: Build_def assms suite loop same Let_def
        del: fun_upd_apply split: option.splits prod.splits outcome.splits sum.splits)
qed

theorem Build_resolves_suite_witness:
  "Build (scriptedSign 10) (exampleBuilder\<lparr>SignatureType := EcdsaSecp256k1SignatureType\<rparr>)
     exampleClaims ((''id'', StringValue ''did:example:123'') # exampleClaims) 0
     = (Return (None, Some (Errorf ''unsupported signature type'')), 0) \<and>
   Build (scriptedSign 0) exampleBuilder exampleClaims
     ((''id'', StringValue ''did:example:123'') # exampleClaims) 0
     = (Return (None, Some (OtherError ''signer unavailable'')), 1) \<and>
   (\<exists>w1. SignatureSuite_Sign (scriptedSign 1)
            (compositeSignatureSuitePtr ed25519SignatureSuiteV2B64)
            \<lparr>UnsignedVerifiableCredential =
               \<lparr>UnsignedVerifiableCredential.Metadata = ''metadata'',
                CredentialSubject = [''id'' \<mapsto> StringValue ''did:example:123'' :: int any_value],
                ClaimProofs = Some [''id'' \<mapsto> scriptedProof Ed25519SignatureType]\<rparr>,
             Proof = None\<rparr>
            (Some ''issuer key'') \<lparr>ProofPurpose = AssertionMethodPurpose\<rparr> w1
          = ((Some (OtherError ''signer unavailable''), None), 2)) \<and>
   Build ed25519OnlySign exampleBuilder exampleClaims
     ((''id'', StringValue ''did:example:123'') # exampleClaims) 0
     = Build (scriptedSign 10) exampleBuilder exampleClaims
         ((''id'', StringValue ''did:example:123'') # exampleClaims) 0"
proof -
  let ?suite = "compositeSignatureSuitePtr ed25519SignatureSuiteV2B64"
  let ?range = "(''id'', StringValue ''did:example:123'') # exampleClaims"
  let ?options = "\<lparr>ProofPurpose = AssertionMethodPurpose\<rparr>"
  let ?cred = "\<lparr>UnsignedVerifiableCredential =
               \<lparr>UnsignedVerifiableCredential.Metadata = ''metadata'',
                CredentialSubject = [''id'' \<mapsto> StringValue ''did:example:123'' :: int any_value],
                ClaimProofs = Some [''id'' \<mapsto> scriptedProof Ed25519SignatureType]\<rparr>,
             Proof = None\<rparr>"
  have valid: "validateStruct exampleBuilder = None"
    "validateStruct (exampleBuilder\<lparr>SignatureType := EcdsaSecp256k1SignatureType\<rparr>) = None"
    "validateStruct (exampleBuilder\<lparr>Data := None\<rparr>) = None"
    by (simp_all add: validateStruct_def exampleBuilder_def)
  have none: "GetSuiteForCredentials SignatureSuites
      (Builder.SignatureType (exampleBuilder\<lparr>SignatureType := EcdsaSecp256k1SignatureType\<rparr>)) V2
        = (None, Some (Errorf ''unsupported signature type''))"
    by (simp add: GetSuiteForCredentials_def getSuiteV2Cred_def)
  have some: "GetSuiteForCredentials SignatureSuites (Builder.SignatureType exampleBuilder) V2
                = (Some ?suite, None)"
    "GetSuiteForCredentials SignatureSuites
       (Builder.SignatureType (exampleBuilder\<lparr>Data := None\<rparr>)) V2 = (Some ?suite, None)"
    by (simp_all add: GetSuiteForCredentials_def getSuiteV2Cred_def exampleBuilder_def)
  have unsupported:
    "Build (scriptedSign 10) (exampleBuilder\<lparr>SignatureType := EcdsaSecp256k1SignatureType\<rparr>)
       exampleClaims ?range 0 = (Return (None, Some (Errorf ''unsupported signature type'')), 0)"
    using Build_resolves_suite [OF valid(2), of "scriptedSign 10" exampleClaims ?range 0] none
    by blast
  have firstClaim:
    "Build (scriptedSign 0) exampleBuilder exampleClaims ?range 0
       = (Return (None, Some (OtherError ''signer unavailable'')), 1)"
  proof -
    from Build_resolves_suite [OF valid(1), of "scriptedSign 0" exampleClaims ?range 0] some(1)
    obtain metadata where md: "Builder.Metadata exampleBuilder = Some metadata"
      and first: "\<forall>k v rest err slot w'.
             ?range = (k, v) # rest \<and>
             SignatureSuite_Sign (scriptedSign 0) ?suite (singleClaimCredential metadata k v)
               (Signer exampleBuilder) ?options 0 = ((Some err, slot), w') \<longrightarrow>
             Build (scriptedSign 0) exampleBuilder exampleClaims ?range 0
               = (Return (None, Some err), w')"
      by blast
    from md have metadata: "metadata = ''metadata''"
      by (simp add: exampleBuilder_def)
    have "SignatureSuite_Sign (scriptedSign 0) ?suite
            (singleClaimCredential ''metadata'' ''id'' (StringValue ''did:example:123'' :: int any_value))
            (Signer exampleBuilder) ?options 0
          = ((Some (OtherError ''signer unavailable''), None), 1)"
      by (simp add: suite_defs scriptedSign_def del: fun_upd_apply)
    with first metadata show ?thesis by blast
  qed
  have returned:
    "\<exists>w1. SignatureSuite_Sign (scriptedSign 1) ?suite ?cred (Some ''issuer key'') ?options w1
            = ((Some (OtherError ''signer unavailable''), None), 2)"
  proof -
    have eval: "Build (scriptedSign 1) (exampleBuilder\<lparr>Data := None\<rparr>) []
                  [(''id'', StringValue ''did:example:123'')] 0
                = (Return (Some ?cred, Some (OtherError ''signer unavailable'')), 2)"
      by (simp add: build_eval suite_defs del: fun_upd_apply)
    from Build_resolves_suite [OF valid(3), of "scriptedSign 1" "[]"
           "[(''id'', StringValue ''did:example:123'')]" 0] some(2) eval
    have "\<exists>w1. SignatureSuite_Sign (scriptedSign 1) ?suite (?cred\<lparr>Proof := None\<rparr>)
                  (Signer (exampleBuilder\<lparr>Data := None\<rparr>)) ?options w1
                = ((Some (OtherError ''signer unavailable''), Proof ?cred), 2)"
      by blast
    then show ?thesis by (simp add: exampleBuilder_def del: fun_upd_apply)
  qed
  have same: "SignatureSuite_Sign ed25519OnlySign ?suite
                = (SignatureSuite_Sign (scriptedSign 10) ?suite
                    :: (int, string) VerifiableCredential \<Rightarrow> string option \<Rightarrow> ProofOptions \<Rightarrow> nat
                        \<Rightarrow> (error option \<times> Proof option) \<times> nat)"
    by (intro ext) (simp add: ed25519OnlySign_def suite_defs)
  have independent:
    "Build ed25519OnlySign exampleBuilder exampleClaims ?range 0
       = Build (scriptedSign 10) exampleBuilder exampleClaims ?range 0"
    using Build_resolves_suite [OF valid(1), of "scriptedSign 10" exampleClaims ?range 0]
      some(1) same
    by blast
  from unsupported firstClaim returned independent show ?thesis by blast
qed

text \<open>
  C10, as stated, fails: the builder of the example without claims and with the
  signature type EcdsaSecp256k1 has all four required fields, and \<open>Build\<close> returns no
  credential and the error "unsupported signature type", and signs nothing.
\<close>

theorem Build_unsupported_type_counterexample:
  "validateStruct (exampleBuilder\<lparr>Data := None, SignatureType := EcdsaSecp256k1SignatureType\<rparr>)
     = None \<and>
   Build countingSign (exampleBuilder\<lparr>Data := None, SignatureType := EcdsaSecp256k1SignatureType\<rparr>)
      [] [(''id'', StringValue ''did:example:123'')] 0
   = (Return (None, Some (Errorf ''unsupported signature type'')), 0)"
  by (simp add: build_eval suite_defs del: fun_upd_apply)

text \<open>
  C10, amended. Let the builder have a subject identifier, metadata and a signer, a
  signature type that the credential-proof table has at V2 (Ed25519, WorkEd25519 or
  JCSEd25519), and a \<open>Data\<close> that is \<open>nil\<close> or empty; let the signer succeed: every
  \<open>Sign\<close> of the resolved suite with the signer of the builder returns no error and
  attaches a proof. Then \<open>Build\<close> returns no error and a credential whose credential
  subject is exactly the claim \<open>id\<close> with the subject identifier, whose claim proofs are
  exactly one proof under the key \<open>id\<close>, and which carries an aggregate proof.
\<close>

theorem Build_without_claims:
  assumes present: "SubjectDID b \<noteq> []" "Builder.Metadata b = Some metadata" "Signer b = Some signer"
    and supported: "Builder.SignatureType b
                      \<in> {Ed25519SignatureType, WorkEdSignatureType, JCSEdSignatureType}"
    and noClaims: "Data b = None \<or> Data b = Some Map.empty"
    and dataRange: "ranges (entries (Data b)) dataRange"
    and subjectRange:
      "ranges ([SubjectIDAttribute \<mapsto> StringValue (SubjectDID b)] ++ entries (Data b)) subjectRange"
    and signs:
      "\<forall>suite c w0.
         getSuiteV2Cred SignatureSuites (Builder.SignatureType b) = Some suite \<longrightarrow>
         (\<exists>p w1. SignatureSuite_Sign ldSign suite c (Signer b)
                    \<lparr>ProofPurpose = AssertionMethodPurpose\<rparr> w0 = ((None, Some p), w1))"
  shows "\<exists>cred idProof aggregateProof w'.
           Build ldSign b dataRange subjectRange w = (Return (Some cred, None), w')
         \<and> CredentialSubject (UnsignedVerifiableCredential cred) = [''id'' \<mapsto> StringValue (SubjectDID b)]
         \<and> ClaimProofs (UnsignedVerifiableCredential cred) = Some [''id'' \<mapsto> idProof]
         \<and> Proof cred = Some aggregateProof"
proof -
  let ?options = "\<lparr>ProofPurpose = AssertionMethodPurpose\<rparr>"
  from noClaims have empty: "entries (Data b) = Map.empty"
    by (auto simp: entries_def)
  from dataRange empty have dr: "dataRange = []"
    by (simp add: ranges_empty)
  from subjectRange empty have sr: "subjectRange = [(''id'', StringValue (SubjectDID b))]"
    by (simp add: ranges_singleton SubjectIDAttribute_def)
  from present supported have valid: "validateStruct b = None"
    by (auto simp: validateStruct_None)
  from supported obtain suite where
    entry: "getSuiteV2Cred SignatureSuites (Builder.SignatureType b) = Some suite"
    by (auto simp: getSuiteV2Cred_def)
  then have suite:
    "GetSuiteForCredentials SignatureSuites (Builder.SignatureType b) V2 = (Some suite, None)"
    by (simp add: GetSuiteForCredentials_V2)
  obtain idProof w1 where
    claim: "SignatureSuite_Sign ldSign suite
              (singleClaimCredential metadata ''id'' (StringValue (SubjectDID b)))
              (Signer b) ?options w = ((None, Some idProof), w1)"
    using signs entry by blast
  let ?cred = "\<lparr>UnsignedVerifiableCredential =
                  \<lparr>UnsignedVerifiableCredential.Metadata = metadata,
                   CredentialSubject = [''id'' \<mapsto> StringValue (SubjectDID b)],
                   ClaimProofs = Some [''id'' \<mapsto> idProof]\<rparr>,
                Proof = None\<rparr>"
  obtain aggregateProof w2 where
    aggregate: "SignatureSuite_Sign ldSign suite ?cred (Signer b) ?options w1
                  = ((None, Some aggregateProof), w2)"
    using signs entry by blast
  have "Build ldSign b dataRange subjectRange w
          = (Return (Some (?cred\<lparr>Proof := Some aggregateProof\<rparr>), None), w2)"
    using valid suite present claim aggregate
    by (simp add: Build_def dr sr SubjectIDAttribute_def del: fun_upd_apply)
  then show ?thesis by (simp del: fun_upd_apply) blast
qed

theorem Build_without_claims_witness:
  "\<exists>cred idProof aggregateProof w'.
     Build keyedSign (exampleBuilder\<lparr>Data := None\<rparr>)
       [] [(''id'', StringValue ''did:example:123'')] 0 = (Return (Some cred, None), w')
   \<and> CredentialSubject (UnsignedVerifiableCredential cred)
       = [''id'' \<mapsto> StringValue ''did:example:123'']
   \<and> ClaimProofs (UnsignedVerifiableCredential cred) = Some [''id'' \<mapsto> idProof]
   \<and> Proof cred = Some aggregateProof"
proof -
  let ?b = "exampleBuilder\<lparr>Data := None\<rparr>"
  have present: "SubjectDID ?b \<noteq> []" "Builder.Metadata ?b = Some ''metadata''"
    "Signer ?b = Some ''issuer key''"
    by (simp_all add: exampleBuilder_def)
  have supported: "Builder.SignatureType ?b
                      \<in> {Ed25519SignatureType, WorkEdSignatureType, JCSEdSignatureType}"
    by (simp add: exampleBuilder_def)
  have noClaims: "Data ?b = None \<or> Data ?b = Some Map.empty"
    by simp
  have dataRange: "ranges (entries (Data ?b)) []"
    by (simp add: ranges_def entries_def)
  have subjectRange:
    "ranges ([SubjectIDAttribute \<mapsto> StringValue (SubjectDID ?b)] ++ entries (Data ?b))
       [(''id'', StringValue ''did:example:123'')]"
    by (simp add: ranges_def entries_def SubjectIDAttribute_def exampleBuilder_def)
  have signs:
    "\<forall>suite (c :: (int, string) VerifiableCredential) w0.
       getSuiteV2Cred SignatureSuites (Builder.SignatureType ?b) = Some suite \<longrightarrow>
       (\<exists>p w1. SignatureSuite_Sign keyedSign suite c (Signer ?b)
                  \<lparr>ProofPurpose = AssertionMethodPurpose\<rparr> w0 = ((None, Some p), w1))"
    by (auto simp: getSuiteV2Cred_def exampleBuilder_def suite_defs keyedSign_def)
  from Build_without_claims [OF present supported noClaims dataRange subjectRange signs, of 0]
  show ?thesis by (simp add: exampleBuilder_def del: fun_upd_apply)
qed

end
